theory Spec2Isabelle
  imports Complex_Main "HOL-Library.Sublist"
begin

section \<open>Python values\<close>

text \<open>
  A Python \<open>str\<close> is a sequence of Unicode code points and \<open>len\<close> counts code points,
  so a string is modelled as the list of its code points. The literals of the source are
  written with \<open>ustr\<close> for their ASCII parts and with explicit code points for the
  accented letters and symbols: a-acute 225, e-acute 233, i-acute 237, n-tilde 241,
  o-acute 243, u-acute 250, the warning sign 9888 followed by the variation selector
  65039, the cross mark 10060, the apostrophe 39.
\<close>

type_synonym pystr = "nat list"

definition ustr :: "string \<Rightarrow> pystr" where
  "ustr s = map of_char s"

text \<open>\<open>needle in hay\<close> on strings: \<open>needle\<close> occurs as a contiguous substring.\<close>

definition py_in :: "pystr \<Rightarrow> pystr \<Rightarrow> bool" where
  "py_in needle hay = sublist needle hay"

text \<open>The slices \<open>s[:k]\<close> and \<open>s[-k:]\<close> for a non-negative \<open>k\<close>; \<open>s[-0:]\<close> is all of \<open>s\<close>.\<close>

definition slice_to :: "nat \<Rightarrow> 'a list \<Rightarrow> 'a list" where
  "slice_to k s = take k s"

definition slice_last :: "nat \<Rightarrow> 'a list \<Rightarrow> 'a list" where
  "slice_last k s = (if k = 0 then s else drop (length s - k) s)"

section \<open>Documents\<close>

text \<open>
  A search result is a dict with the keys \<open>content\<close>, \<open>source\<close>, \<open>path\<close> and \<open>score\<close>.
  Each field is optional: \<open>None\<close> is an absent key, which \<open>doc.get(key, default)\<close> and
  \<open>"path" in doc\<close> observe. The values are texts and a number, as the search gateway's
  docstring types them.
\<close>

record document =
  doc_content :: "pystr option"
  doc_source :: "pystr option"
  doc_path :: "pystr option"
  doc_score :: "real option"

text \<open>\<open>doc.get("content", "")\<close>\<close>

definition get_content :: "document \<Rightarrow> pystr" where
  "get_content doc = (case doc_content doc of None \<Rightarrow> [] | Some c \<Rightarrow> c)"

section \<open>Context budgeting (step 3 of \<open>rag_answer\<close> and of \<open>rag_answer_stream\<close>)\<close>

definition MAX_CHARS_PER_CHUNK :: nat where
  "MAX_CHARS_PER_CHUNK = 4000"

definition MAX_TOTAL_CONTEXT :: nat where
  "MAX_TOTAL_CONTEXT = 12000"

definition TRUNCATED_MIDDLE :: pystr where
  "TRUNCATED_MIDDLE = ustr ''... [texto truncado] ...''"

definition TRUNCATED_END :: pystr where
  "TRUNCATED_END = ustr ''... [texto truncado]''"

text \<open>
  Lines 91 to 94: a content longer than \<open>MAX_CHARS_PER_CHUNK\<close> keeps its first and last
  \<open>MAX_CHARS_PER_CHUNK // 2\<close> characters around the marker.
\<close>

definition truncate_content :: "pystr \<Rightarrow> pystr" where
  "truncate_content content =
     (if length content > MAX_CHARS_PER_CHUNK then
        (let half = MAX_CHARS_PER_CHUNK div 2
         in slice_to half content @ TRUNCATED_MIDDLE @ slice_last half content)
      else content)"

text \<open>
  The \<open>for doc in search_results\<close> loop, with its two accumulators \<open>context_chunks\<close> and
  \<open>total_chars\<close>. The second component of the result records how the loop was left: by
  exhausting the documents, by the \<open>break\<close> of line 101, or by the \<open>break\<close> of line 105
  after the hard truncation of line 103. The loop of \<open>rag_answer_stream\<close> (lines 203 to
  221) is the same statement sequence.
\<close>

datatype loop_exit = Exhausted | BudgetStop | HardTruncated

fun budget_loop :: "document list \<Rightarrow> pystr list \<Rightarrow> nat \<Rightarrow> pystr list \<times> loop_exit" where
  "budget_loop [] context_chunks total_chars = (context_chunks, Exhausted)"
| "budget_loop (doc # rest) context_chunks total_chars =
     (let content = get_content doc in
      if content = [] then budget_loop rest context_chunks total_chars
      else
        let content = truncate_content content;
            chunk_size = length content
        in if total_chars + chunk_size > MAX_TOTAL_CONTEXT then
             (if context_chunks \<noteq> [] then (context_chunks, BudgetStop)
              else (context_chunks @ [slice_to MAX_TOTAL_CONTEXT content @ TRUNCATED_END],
                    HardTruncated))
           else budget_loop rest (context_chunks @ [content]) (total_chars + chunk_size))"

definition budget_context :: "document list \<Rightarrow> pystr list" where
  "budget_context search_results = fst (budget_loop search_results [] 0)"

definition budget_exit :: "document list \<Rightarrow> loop_exit" where
  "budget_exit search_results = snd (budget_loop search_results [] 0)"

definition total_length :: "pystr list \<Rightarrow> nat" where
  "total_length chunks = sum_list (map length chunks)"


text \<open>
  The fragments of a ranked document list, in rank order: the truncated contents of the
  documents that have a content.
\<close>

definition ranked_fragments :: "document list \<Rightarrow> pystr list" where
  "ranked_fragments docs =
     map truncate_content (filter (\<lambda>c. c \<noteq> []) (map get_content docs))"

text \<open>A document as the search gateway builds it, given its content only.\<close>

definition doc_of_content :: "pystr \<Rightarrow> document" where
  "doc_of_content c =
     \<lparr>doc_content = Some c, doc_source = Some (ustr ''Unknown''), doc_path = Some [],
      doc_score = Some 0\<rparr>"

section \<open>The Python runtime\<close>

text \<open>
  \<open>str.lower\<close>, \<open>str.strip\<close> and the \<open>str\<close> of a list of scores are functions of the
  Python runtime, which the source calls on arbitrary Unicode text and floats. They are
  parameters of the model: every general theorem below holds for whatever they compute.
  In \<open>str_scores\<close> an absent score is \<open>None\<close>, for which \<open>doc.get('score', 0)\<close> prints the
  integer 0.
\<close>

record pylib =
  str_lower :: "pystr \<Rightarrow> pystr"
  str_strip :: "pystr \<Rightarrow> pystr"
  str_scores :: "real option list \<Rightarrow> pystr"

text \<open>The \<open>str\<close> of a non-negative integer: its decimal digits.\<close>

fun str_nat :: "nat \<Rightarrow> pystr" where
  "str_nat n = (if n < 10 then [48 + n] else str_nat (n div 10) @ [48 + n mod 10])"

text \<open>\<open>sep.join(xs)\<close>\<close>

fun py_join :: "pystr \<Rightarrow> pystr list \<Rightarrow> pystr" where
  "py_join sep [] = []"
| "py_join sep [x] = x"
| "py_join sep (x # y # ys) = x @ sep @ py_join sep (y # ys)"

text \<open>
  What the three runtime functions compute on ASCII text and on scores that are whole
  numbers from 0 to below \<open>10^16\<close>; the concrete examples use nothing else. The ASCII
  characters that \<open>str.strip\<close> removes are the space, the controls 9 to 13 and the
  separators 28 to 31.
\<close>

definition ascii_lower :: "pystr \<Rightarrow> pystr" where
  "ascii_lower s = map (\<lambda>c. if 65 \<le> c \<and> c \<le> 90 then c + 32 else c) s"

definition ascii_space :: "nat \<Rightarrow> bool" where
  "ascii_space c = (c = 32 \<or> (9 \<le> c \<and> c \<le> 13) \<or> (28 \<le> c \<and> c \<le> 31))"

definition ascii_strip :: "pystr \<Rightarrow> pystr" where
  "ascii_strip s = rev (dropWhile ascii_space (rev (dropWhile ascii_space s)))"

definition whole_score :: "real option \<Rightarrow> pystr" where
  "whole_score x = (case x of None \<Rightarrow> ustr ''0'' | Some r \<Rightarrow> str_nat (nat \<lfloor>r\<rfloor>) @ ustr ''.0'')"

definition whole_scores :: "real option list \<Rightarrow> pystr" where
  "whole_scores xs = ustr ''['' @ py_join (ustr '', '') (map whole_score xs) @ ustr '']''"

definition ascii_runtime :: pylib where
  "ascii_runtime =
     \<lparr>str_lower = ascii_lower, str_strip = ascii_strip, str_scores = whole_scores\<rparr>"

section \<open>Search gateway (\<open>azure_search_client.py\<close>)\<close>

text \<open>A row of the index as the search backend returns it; \<open>None\<close> is an absent field.\<close>

record search_hit =
  hit_content :: "pystr option"
  metadata_storage_name :: "pystr option"
  metadata_storage_path :: "pystr option"
  search_score :: "real option"

text \<open>
  The search backend, called with the query text and \<open>top\<close>: it raises (\<open>Inl\<close>, with the
  \<open>str\<close> of the exception) or returns the ranked rows.
\<close>

type_synonym search_backend = "pystr \<Rightarrow> int \<Rightarrow> pystr + search_hit list"

definition to_document :: "search_hit \<Rightarrow> document" where
  "to_document result =
     \<lparr>doc_content = Some (case hit_content result of None \<Rightarrow> [] | Some c \<Rightarrow> c),
      doc_source = Some (case metadata_storage_name result of
                           None \<Rightarrow> ustr ''Unknown'' | Some s \<Rightarrow> s),
      doc_path = Some (case metadata_storage_path result of None \<Rightarrow> [] | Some p \<Rightarrow> p),
      doc_score = Some (case search_score result of None \<Rightarrow> 0 | Some x \<Rightarrow> x)\<rparr>"

definition search_documents :: "search_backend \<Rightarrow> pystr \<Rightarrow> int \<Rightarrow> pystr + document list" where
  "search_documents client query top_k =
     (case client query top_k of
        Inl e \<Rightarrow> Inl (ustr ''Error al buscar en Azure AI Search: '' @ e)
      | Inr results \<Rightarrow> Inr (map to_document results))"

definition search_documents_text_only ::
  "search_backend \<Rightarrow> pystr \<Rightarrow> int \<Rightarrow> pystr + document list" where
  "search_documents_text_only client query top_k = search_documents client query top_k"

section \<open>Generation gateway (\<open>azure_openai_client.py\<close>)\<close>

text \<open>
  The keyword arguments of \<open>chat.completions.create\<close>. \<open>cp_stream\<close> tells whether the key
  \<open>stream\<close> is there (with the value \<open>True\<close>); \<open>cp_temperature\<close> is \<open>None\<close> when the key
  \<open>temperature\<close> is absent. A message is the pair of its role and its content.
\<close>

record call_params =
  cp_model :: pystr
  cp_messages :: "(pystr \<times> pystr) list"
  cp_max_completion_tokens :: nat
  cp_stream :: bool
  cp_temperature :: "real option"

text \<open>
  A completion is the list \<open>response.choices\<close>, each choice given by its
  \<open>message.content\<close> (\<open>None\<close> for a null content). A stream is the list of its chunks, each
  chunk the list of the deltas of its choices, and the error, if any, that iterating it
  raises after the last chunk.
\<close>

type_synonym completion = "pystr option list"

datatype delta = NoDelta | Delta "pystr option"

type_synonym stream_chunk = "delta list"

record chat_stream =
  stream_chunks :: "stream_chunk list"
  stream_failure :: "pystr option"

text \<open>
  The client: the deployment name of its configuration and the backend behind
  \<open>self.client.chat.completions.create\<close>, for a call without and with \<open>stream\<close>. The
  backend sees the calls made before this one, so that a retry may be answered
  differently; it raises (\<open>Inl\<close>, with the \<open>str\<close> of the exception) or returns.
\<close>

record AzureOpenAIClient =
  deployment_name :: pystr
  create_completion :: "call_params list \<Rightarrow> call_params \<Rightarrow> pystr + completion"
  create_stream :: "call_params list \<Rightarrow> call_params \<Rightarrow> pystr + chat_stream"

text \<open>One backend call: its outcome, and the log of calls extended by this one.\<close>

definition create ::
  "(call_params list \<Rightarrow> call_params \<Rightarrow> pystr + 'r) \<Rightarrow> call_params list \<Rightarrow> call_params
     \<Rightarrow> (pystr + 'r) \<times> call_params list" where
  "create backend calls call_params = (backend calls call_params, calls @ [call_params])"

definition fragment_block :: "nat \<times> pystr \<Rightarrow> pystr" where
  "fragment_block = (\<lambda>(i, chunk). ustr ''[Fragmento '' @ str_nat (i + 1) @ ustr '']'' @ [10] @ chunk)"

definition build_context_text :: "pystr list \<Rightarrow> pystr" where
  "build_context_text context_chunks =
     py_join [10, 10] (map fragment_block (enumerate 0 context_chunks))"

definition user_prompt_with_context :: "pystr \<Rightarrow> pystr \<Rightarrow> pystr" where
  "user_prompt_with_context context_text user_message =
     ustr ''Contexto de los manuales t'' @ [233] @ ustr ''cnicos:'' @ [10, 10] @
     context_text @ [10, 10] @ ustr ''---'' @ [10, 10] @
     ustr ''Pregunta del usuario: '' @ user_message @ [10, 10] @
     ustr ''Bas'' @ [225] @ ustr ''ndote en el contexto proporcionado, responde la pregunta del usuario. Si encuentras informaci'' @ [243] @ ustr ''n relevante, aunque sea parcial, comp'' @ [225] @ ustr ''rtela. Si el contexto menciona algo relacionado con la pregunta, incl'' @ [250] @ ustr ''yelo en tu respuesta.''"

definition build_messages :: "pystr \<Rightarrow> pystr \<Rightarrow> pystr list \<Rightarrow> (pystr \<times> pystr) list" where
  "build_messages system_prompt user_message context_chunks =
     [(ustr ''system'', system_prompt),
      (ustr ''user'',
       user_prompt_with_context (build_context_text context_chunks) user_message)]"

text \<open>
  Lines 73 to 82 and 168 to 177: \<open>temperature\<close> is added to the arguments only when it
  differs from 1.0.
\<close>

definition build_call_params ::
  "AzureOpenAIClient \<Rightarrow> bool \<Rightarrow> (pystr \<times> pystr) list \<Rightarrow> real \<Rightarrow> call_params" where
  "build_call_params self streaming messages temperature =
     (let call_params =
            \<lparr>cp_model = deployment_name self, cp_messages = messages,
             cp_max_completion_tokens = 800, cp_stream = streaming, cp_temperature = None\<rparr>
      in if temperature \<noteq> 1 then call_params\<lparr>cp_temperature := Some temperature\<rparr>
         else call_params)"

definition names_unsupported_temperature :: "pylib \<Rightarrow> pystr \<Rightarrow> bool" where
  "names_unsupported_temperature L error_str =
     (py_in (ustr ''temperature'') (str_lower L error_str) \<and>
      py_in (ustr ''unsupported'') (str_lower L error_str))"

text \<open>
  Lines 85 to 96 and 180 to 189: the call, retried without \<open>temperature\<close> when the error
  names it as unsupported; any other error is raised again.
\<close>

definition create_with_retry ::
  "pylib \<Rightarrow> (call_params list \<Rightarrow> call_params \<Rightarrow> pystr + 'r) \<Rightarrow> call_params list \<Rightarrow> call_params
     \<Rightarrow> (pystr + 'r) \<times> call_params list" where
  "create_with_retry L backend calls call_params =
     (case create backend calls call_params of
        (Inr response, calls1) \<Rightarrow> (Inr response, calls1)
      | (Inl error_str, calls1) \<Rightarrow>
          if names_unsupported_temperature L error_str
          then create backend calls1 (call_params\<lparr>cp_temperature := None\<rparr>)
          else (Inl error_str, calls1))"

definition is_rate_limit :: "pylib \<Rightarrow> pystr \<Rightarrow> bool" where
  "is_rate_limit L error_str =
     (py_in (ustr ''429'') error_str \<or> py_in (ustr ''RateLimitReached'') error_str \<or>
      py_in (ustr ''rate limit'') (str_lower L error_str))"

definition LIMIT_REACHED :: pystr where
  "LIMIT_REACHED = ustr ''L'' @ [237] @ ustr ''mite de tasa alcanzado''"

definition RATE_LIMIT_MESSAGE :: pystr where
  "RATE_LIMIT_MESSAGE =
     ustr ''L'' @ [237] @ ustr ''mite de tasa alcanzado: Has excedido el l'' @ [237] @ ustr ''mite de tokens por minuto de tu plan de Azure OpenAI. '' @
     ustr ''Por favor, espera 60 segundos antes de intentar de nuevo. '' @
     ustr ''Para aumentar el l'' @ [237] @ ustr ''mite, visita: https://aka.ms/oai/quotaincrease''"

text \<open>Lines 104 to 122: the message of the exception that \<open>generate_response\<close> raises.\<close>

definition classify_error :: "pylib \<Rightarrow> pystr \<Rightarrow> pystr" where
  "classify_error L error_str =
     (if is_rate_limit L error_str then RATE_LIMIT_MESSAGE
      else if py_in (ustr ''400'') error_str then ustr ''Error de solicitud: '' @ error_str
      else ustr ''Error al generar respuesta con Azure OpenAI: '' @ error_str)"

definition NO_ANSWER :: pystr where
  "NO_ANSWER = ustr ''No se pudo generar una respuesta.''"

text \<open>The message of the \<open>AttributeError\<close> that \<open>None.strip()\<close> raises.\<close>

definition NONE_HAS_NO_STRIP :: pystr where
  "NONE_HAS_NO_STRIP =
     [39] @ ustr ''NoneType'' @ [39] @ ustr '' object has no attribute '' @ [39] @ ustr ''strip'' @ [39]"

text \<open>Lines 99 to 102.\<close>

definition response_text :: "pylib \<Rightarrow> completion \<Rightarrow> pystr + pystr" where
  "response_text L choices =
     (case choices of
        [] \<Rightarrow> Inr NO_ANSWER
      | content # _ \<Rightarrow>
          (case content of
             None \<Rightarrow> Inl NONE_HAS_NO_STRIP
           | Some text \<Rightarrow> Inr (str_strip L text)))"

text \<open>
  \<open>generate_response\<close>: the answer (\<open>Inr\<close>) or the message of the exception it raises
  (\<open>Inl\<close>), and the log of backend calls.
\<close>

definition generate_response ::
  "pylib \<Rightarrow> AzureOpenAIClient \<Rightarrow> call_params list \<Rightarrow> pystr \<Rightarrow> pystr \<Rightarrow> pystr list \<Rightarrow> real
     \<Rightarrow> (pystr + pystr) \<times> call_params list" where
  "generate_response L self calls system_prompt user_message context_chunks temperature =
     (let messages = build_messages system_prompt user_message context_chunks;
          call_params = build_call_params self False messages temperature;
          (response, calls1) = create_with_retry L (create_completion self) calls call_params
      in case (case response of
                 Inl error_str \<Rightarrow> Inl error_str
               | Inr choices \<Rightarrow> response_text L choices) of
           Inr text \<Rightarrow> (Inr text, calls1)
         | Inl error_str \<Rightarrow> (Inl (classify_error L error_str), calls1))"

text \<open>Lines 192 to 196: what one chunk of the stream makes the generator yield.\<close>

fun chunk_yield :: "stream_chunk \<Rightarrow> pystr list" where
  "chunk_yield [] = []"
| "chunk_yield (NoDelta # _) = []"
| "chunk_yield (Delta None # _) = []"
| "chunk_yield (Delta (Some content) # _) = (if content = [] then [] else [content])"

definition STREAM_RATE_LIMIT :: pystr where
  "STREAM_RATE_LIMIT =
     [10, 10] @ [9888, 65039] @ ustr '' **L'' @ [237] @ ustr ''mite de tasa alcanzado**: Has excedido el l'' @ [237] @ ustr ''mite de tokens por minuto. Espera 60 segundos antes de intentar de nuevo.''"

text \<open>Lines 198 to 212: the chunk yielded in place of an exception.\<close>

definition stream_error_chunk :: "pylib \<Rightarrow> pystr \<Rightarrow> pystr" where
  "stream_error_chunk L error_str =
     (if is_rate_limit L error_str then STREAM_RATE_LIMIT
      else if py_in (ustr ''400'') error_str
      then [10, 10] @ [10060] @ ustr '' **Error de solicitud**: '' @ error_str
      else [10, 10] @ [10060] @ ustr '' **Error**: '' @ error_str)"

text \<open>
  \<open>generate_response_stream\<close>, consumed to its end: the chunks it yields, in order, and
  the log of backend calls.
\<close>

definition generate_response_stream ::
  "pylib \<Rightarrow> AzureOpenAIClient \<Rightarrow> call_params list \<Rightarrow> pystr \<Rightarrow> pystr \<Rightarrow> pystr list \<Rightarrow> real
     \<Rightarrow> pystr list \<times> call_params list" where
  "generate_response_stream L self calls system_prompt user_message context_chunks temperature =
     (let messages = build_messages system_prompt user_message context_chunks;
          call_params = build_call_params self True messages temperature;
          (stream, calls1) = create_with_retry L (create_stream self) calls call_params
      in case stream of
           Inl error_str \<Rightarrow> ([stream_error_chunk L error_str], calls1)
         | Inr s \<Rightarrow>
             (concat (map chunk_yield (stream_chunks s)) @
              (case stream_failure s of
                 None \<Rightarrow> []
               | Some error_str \<Rightarrow> [stream_error_chunk L error_str]),
              calls1))"

section \<open>The pipeline (\<open>rag_pipeline.py\<close>)\<close>

text \<open>
  The pipeline object: its two clients and its system prompt, a constant text that the
  constructor sets and that is only handed on to the generation gateway.
\<close>

record RAGPipeline =
  search_client :: search_backend
  openai_client :: AzureOpenAIClient
  system_prompt :: pystr

text \<open>An entry of \<open>sources\<close>: the keys \<open>source\<close> and \<open>score\<close>, and \<open>path\<close> when the document has it.\<close>

record source_info =
  source :: pystr
  score :: real
  path :: "pystr option"

record answer_result =
  answer :: pystr
  sources :: "source_info list"

text \<open>Lines 132 to 138, the body of the loop of step 5.\<close>

definition source_of :: "document \<Rightarrow> source_info" where
  "source_of doc =
     \<lparr>source = (case doc_source doc of None \<Rightarrow> ustr ''Unknown'' | Some s \<Rightarrow> s),
      score = (case doc_score doc of None \<Rightarrow> 0 | Some x \<Rightarrow> x),
      path = doc_path doc\<rparr>"

definition NO_RESULTS_ANSWER :: pystr where
  "NO_RESULTS_ANSWER =
     ustr ''No se encontr'' @ [243] @ ustr '' informaci'' @ [243] @ ustr ''n relevante en los manuales para responder tu pregunta. Por favor, intenta reformularla o usar t'' @ [233] @ ustr ''rminos m'' @ [225] @ ustr ''s espec'' @ [237] @ ustr ''ficos.''"

text \<open>Lines 112 to 116: the answer when no document had a usable content.\<close>

definition no_context_answer :: "pylib \<Rightarrow> document list \<Rightarrow> pystr" where
  "no_context_answer L search_results =
     (let debug_info =
            ustr ''Se encontraron '' @ str_nat (length search_results) @
            ustr '' documentos pero no conten'' @ [237] @ ustr ''an texto '' @ [250] @ ustr ''til.'';
          debug_info =
            (if search_results \<noteq> [] then
               debug_info @ ustr '' Scores: '' @
               str_scores L (map doc_score (take 3 search_results))
             else debug_info)
      in debug_info @
         ustr '' Por favor, intenta otra pregunta o reformula con t'' @ [233] @ ustr ''rminos m'' @ [225] @ ustr ''s espec'' @ [237] @ ustr ''ficos.'')"

text \<open>Lines 147 to 162: the answer text built from the message of a caught exception.\<close>

definition error_answer :: "pylib \<Rightarrow> pystr \<Rightarrow> pystr" where
  "error_answer L error_message =
     (if py_in LIMIT_REACHED error_message \<or>
         py_in (ustr ''rate limit'') (str_lower L error_message)
      then [9888, 65039] @ ustr '' **'' @ LIMIT_REACHED @ ustr ''**'' @ [10, 10] @
           error_message @ [10, 10] @
           ustr ''Por favor, espera un momento antes de hacer otra pregunta.''
      else [10060] @ ustr '' **Error al procesar tu pregunta**'' @ [10, 10] @
           error_message @ [10, 10] @
           ustr ''Por favor, intenta de nuevo o verifica tu configuraci'' @ [243] @ ustr ''n de Azure.'')"

text \<open>
  \<open>rag_answer\<close>: the returned dict and the log of generation-backend calls, which starts
  as \<open>calls\<close>. Every exception raised inside is caught by the handler of line 147, so a
  dict is always returned.
\<close>

definition rag_answer ::
  "pylib \<Rightarrow> RAGPipeline \<Rightarrow> call_params list \<Rightarrow> pystr \<Rightarrow> int \<Rightarrow> real
     \<Rightarrow> answer_result \<times> call_params list" where
  "rag_answer L self calls user_question top_k temperature =
     (case search_documents_text_only (search_client self) user_question top_k of
        Inl error_message \<Rightarrow>
          (\<lparr>answer = error_answer L error_message, sources = []\<rparr>, calls)
      | Inr search_results \<Rightarrow>
          if search_results = [] then
            (\<lparr>answer = NO_RESULTS_ANSWER, sources = []\<rparr>, calls)
          else
            let context_chunks = budget_context search_results in
            if context_chunks = [] then
              (\<lparr>answer = no_context_answer L search_results, sources = []\<rparr>, calls)
            else
              (case generate_response L (openai_client self) calls (system_prompt self)
                      user_question context_chunks temperature of
                 (Inl error_message, calls1) \<Rightarrow>
                   (\<lparr>answer = error_answer L error_message, sources = []\<rparr>, calls1)
               | (Inr text, calls1) \<Rightarrow>
                   (\<lparr>answer = text, sources = map source_of search_results\<rparr>, calls1)))"

text \<open>
  \<open>rag_answer_stream\<close>, consumed to its end: the chunks it yields, the \<open>sources\<close> of the
  dict it returns, and the log of generation-backend calls.
\<close>

record stream_result =
  yielded :: "pystr list"
  returned_sources :: "source_info list"

definition rag_answer_stream ::
  "pylib \<Rightarrow> RAGPipeline \<Rightarrow> call_params list \<Rightarrow> pystr \<Rightarrow> int \<Rightarrow> real
     \<Rightarrow> stream_result \<times> call_params list" where
  "rag_answer_stream L self calls user_question top_k temperature =
     (case search_documents_text_only (search_client self) user_question top_k of
        Inl error_message \<Rightarrow>
          (\<lparr>yielded = [error_answer L error_message], returned_sources = []\<rparr>, calls)
      | Inr search_results \<Rightarrow>
          if search_results = [] then
            (\<lparr>yielded = [NO_RESULTS_ANSWER], returned_sources = []\<rparr>, calls)
          else
            let context_chunks = budget_context search_results in
            if context_chunks = [] then
              (\<lparr>yielded = [no_context_answer L search_results], returned_sources = []\<rparr>,
               calls)
            else
              (case generate_response_stream L (openai_client self) calls (system_prompt self)
                      user_question context_chunks temperature of
                 (chunks, calls1) \<Rightarrow>
                   (\<lparr>yielded = chunks, returned_sources = map source_of search_results\<rparr>,
                    calls1)))"

text \<open>
  The text that a stream carries: the contents of the first deltas of its chunks, in
  order, an absent delta or content counting as empty.
\<close>

fun delta_text :: "stream_chunk \<Rightarrow> pystr" where
  "delta_text (Delta (Some content) # _) = content"
| "delta_text _ = []"

definition stream_text :: "stream_chunk list \<Rightarrow> pystr" where
  "stream_text cs = concat (map delta_text cs)"

text \<open>The wait guidance that both rate-limit messages carry.\<close>

definition WAIT_GUIDANCE :: pystr where
  "WAIT_GUIDANCE = ustr ''60 segundos antes de intentar de nuevo.''"

section \<open>Concrete pipelines\<close>

text \<open>
  Two rows of an index, the second without text, and a search backend that returns the
  first \<open>top\<close> rows of a fixed ranking.
\<close>

definition filter_hit :: search_hit where
  "filter_hit =
     \<lparr>hit_content = Some (ustr ''Replace the filter''),
      metadata_storage_name = Some (ustr ''manual.pdf''),
      metadata_storage_path = Some (ustr ''docs/manual.pdf''),
      search_score = Some 2\<rparr>"

definition blank_hit :: search_hit where
  "blank_hit =
     \<lparr>hit_content = Some [],
      metadata_storage_name = Some (ustr ''cover.pdf''),
      metadata_storage_path = Some (ustr ''docs/cover.pdf''),
      search_score = Some 1\<rparr>"

text \<open>
  Three generation backends: one that answers every call with the same text (streamed
  one character per chunk), one that raises the same error on every call, and one that
  raises an error whenever \<open>temperature\<close> is passed and answers otherwise.
\<close>

definition answering :: "pystr \<Rightarrow> AzureOpenAIClient" where
  "answering text =
     \<lparr>deployment_name = ustr ''gpt'',
      create_completion = (\<lambda>calls p. Inr [Some text]),
      create_stream = (\<lambda>calls p.
        Inr \<lparr>stream_chunks = map (\<lambda>c. [Delta (Some [c])]) text, stream_failure = None\<rparr>)\<rparr>"

definition failing :: "pystr \<Rightarrow> AzureOpenAIClient" where
  "failing msg =
     \<lparr>deployment_name = ustr ''gpt'',
      create_completion = (\<lambda>calls p. Inl msg),
      create_stream = (\<lambda>calls p. Inl msg)\<rparr>"

definition rejecting_temperature :: "pystr \<Rightarrow> pystr \<Rightarrow> AzureOpenAIClient" where
  "rejecting_temperature msg text =
     \<lparr>deployment_name = ustr ''gpt'',
      create_completion = (\<lambda>calls p.
        if cp_temperature p \<noteq> None then Inl msg else Inr [Some text]),
      create_stream = (\<lambda>calls p.
        if cp_temperature p \<noteq> None then Inl msg
        else Inr \<lparr>stream_chunks = map (\<lambda>c. [Delta (Some [c])]) text,
                  stream_failure = None\<rparr>)\<rparr>"

definition pipeline_of :: "search_hit list \<Rightarrow> AzureOpenAIClient \<Rightarrow> RAGPipeline" where
  "pipeline_of hits client =
     \<lparr>search_client = (\<lambda>query top_k. Inr (take (nat top_k) hits)),
      openai_client = client,
      system_prompt = ustr ''Eres un asistente especializado''\<rparr>"

definition QUESTION :: pystr where
  "QUESTION = ustr ''How do I replace the filter''"

definition THROTTLED :: pystr where
  "THROTTLED = ustr ''Error code: 429''"

definition REJECTION :: pystr where
  "REJECTION = ustr ''Error code: 429 - Unsupported parameter: temperature''"

text \<open>
  The pipelines of the examples: no row found; one row without text; two rows and a
  backend that answers \<open>ok\<close>; one row and a backend that answers \<open>ok\<close> after a space; one row
  and a throttled backend; one row and a backend that rejects \<open>temperature\<close>.
\<close>

definition empty_pipeline :: RAGPipeline where
  "empty_pipeline = pipeline_of [] (answering (ustr ''ok''))"

definition blank_pipeline :: RAGPipeline where
  "blank_pipeline = pipeline_of [blank_hit] (answering (ustr ''ok''))"

definition plain_pipeline :: RAGPipeline where
  "plain_pipeline = pipeline_of [filter_hit, blank_hit] (answering (ustr ''ok''))"

definition padded_pipeline :: RAGPipeline where
  "padded_pipeline = pipeline_of [filter_hit] (answering (ustr '' ok''))"

definition throttled_pipeline :: RAGPipeline where
  "throttled_pipeline = pipeline_of [filter_hit] (failing THROTTLED)"

definition picky_pipeline :: RAGPipeline where
  "picky_pipeline = pipeline_of [filter_hit] (rejecting_temperature REJECTION (ustr ''ok''))"

text \<open>
  Two more generation backends: one that raises a first error whenever \<open>temperature\<close> is
  passed and a second error otherwise, and one that answers, but whose stream raises an
  error once its chunks have been read. And a search backend that is down.
\<close>

definition rejecting_then_failing :: "pystr \<Rightarrow> pystr \<Rightarrow> AzureOpenAIClient" where
  "rejecting_then_failing msg1 msg2 =
     \<lparr>deployment_name = ustr ''gpt'',
      create_completion = (\<lambda>calls p. if cp_temperature p \<noteq> None then Inl msg1 else Inl msg2),
      create_stream = (\<lambda>calls p. if cp_temperature p \<noteq> None then Inl msg1 else Inl msg2)\<rparr>"

definition breaking :: "pystr \<Rightarrow> pystr \<Rightarrow> AzureOpenAIClient" where
  "breaking text msg =
     \<lparr>deployment_name = ustr ''gpt'',
      create_completion = (\<lambda>calls p. Inr [Some text]),
      create_stream = (\<lambda>calls p.
        Inr \<lparr>stream_chunks = map (\<lambda>c. [Delta (Some [c])]) text,
             stream_failure = Some msg\<rparr>)\<rparr>"

definition twice_failing_pipeline :: RAGPipeline where
  "twice_failing_pipeline =
     pipeline_of [filter_hit] (rejecting_then_failing REJECTION THROTTLED)"

definition breaking_pipeline :: RAGPipeline where
  "breaking_pipeline = pipeline_of [filter_hit] (breaking (ustr ''ok'') THROTTLED)"

definition unreachable_pipeline :: RAGPipeline where
  "unreachable_pipeline =
     \<lparr>search_client = (\<lambda>query top_k. Inl (ustr ''Service unavailable'')),
      openai_client = answering (ustr ''ok''),
      system_prompt = ustr ''Eres un asistente especializado''\<rparr>"

section \<open>Properties of the budgeter\<close>

lemma length_TRUNCATED_MIDDLE: "length TRUNCATED_MIDDLE = 24"
  by (simp add: TRUNCATED_MIDDLE_def ustr_def)

lemma length_TRUNCATED_END: "length TRUNCATED_END = 20"
  by (simp add: TRUNCATED_END_def ustr_def)

lemma truncate_content_long:
  assumes "length content > MAX_CHARS_PER_CHUNK"
  shows "truncate_content content =
           take 2000 content @ TRUNCATED_MIDDLE @ drop (length content - 2000) content"
  using assms
  by (simp add: truncate_content_def MAX_CHARS_PER_CHUNK_def slice_to_def slice_last_def)

lemma length_truncate_content_long:
  assumes "length content > MAX_CHARS_PER_CHUNK"
  shows "length (truncate_content content) = 4024"
  using assms
  by (simp add: truncate_content_long length_TRUNCATED_MIDDLE MAX_CHARS_PER_CHUNK_def)

lemma length_truncate_content_le: "length (truncate_content content) \<le> 4024"
proof (cases "length content > MAX_CHARS_PER_CHUNK")
  case True
  then show ?thesis by (simp add: length_truncate_content_long)
next
  case False
  then show ?thesis by (simp add: truncate_content_def MAX_CHARS_PER_CHUNK_def)
qed

text \<open>One iteration of the loop, with the \<open>let\<close>s of the body unfolded.\<close>

lemma budget_loop_step:
  "budget_loop (doc # rest) chunks tc =
     (if get_content doc = [] then budget_loop rest chunks tc
      else if tc + length (truncate_content (get_content doc)) > MAX_TOTAL_CONTEXT then
             (if chunks \<noteq> [] then (chunks, BudgetStop)
              else ([take MAX_TOTAL_CONTEXT (truncate_content (get_content doc)) @ TRUNCATED_END],
                    HardTruncated))
           else budget_loop rest (chunks @ [truncate_content (get_content doc)])
                  (tc + length (truncate_content (get_content doc))))"
  by (simp add: Let_def slice_to_def)

declare budget_loop.simps(2) [simp del]

text \<open>
  The loop invariant behind the total cap: \<open>total_chars\<close> is the combined length of
  \<open>context_chunks\<close> and stays within the cap.
\<close>

lemma budget_loop_total:
  "tc = total_length chunks \<Longrightarrow> tc \<le> MAX_TOTAL_CONTEXT \<Longrightarrow>
   total_length (fst (budget_loop docs chunks tc)) \<le> MAX_TOTAL_CONTEXT \<or>
   (snd (budget_loop docs chunks tc) = HardTruncated \<and>
    (\<exists>f. fst (budget_loop docs chunks tc) = [f] \<and>
         length f = MAX_TOTAL_CONTEXT + length TRUNCATED_END))"
proof (induction docs arbitrary: chunks tc)
  case Nil
  then show ?case by simp
next
  case (Cons doc rest)
  let ?c = "truncate_content (get_content doc)"
  show ?case
  proof (cases "get_content doc = []")
    case True
    then show ?thesis using Cons by (simp add: budget_loop_step)
  next
    case ne: False
    show ?thesis
    proof (cases "tc + length ?c > MAX_TOTAL_CONTEXT")
      case over: True
      show ?thesis
      proof (cases "chunks = []")
        case True
        with Cons.prems have "tc = 0" by (simp add: total_length_def)
        with over have "length ?c > MAX_TOTAL_CONTEXT" by simp
        then show ?thesis using ne over True
          by (simp add: budget_loop_step)
      next
        case False
        then show ?thesis using ne over Cons.prems
          by (simp add: budget_loop_step)
      qed
    next
      case fits: False
      have "tc + length ?c = total_length (chunks @ [?c])"
        using Cons.prems by (simp add: total_length_def)
      moreover have "tc + length ?c \<le> MAX_TOTAL_CONTEXT" using fits by simp
      ultimately show ?thesis using Cons.IH[of "tc + length ?c" "chunks @ [?c]"] ne fits
        by (simp add: budget_loop_step)
    qed
  qed
qed

text \<open>
  While \<open>context_chunks\<close> is empty \<open>total_chars\<close> is 0, and a fragment is at most 4024
  characters long, so line 103 is never reached.
\<close>

lemma budget_loop_no_hard:
  "(chunks = [] \<longrightarrow> tc = 0) \<Longrightarrow> snd (budget_loop docs chunks tc) \<noteq> HardTruncated"
proof (induction docs arbitrary: chunks tc)
  case Nil
  then show ?case by simp
next
  case (Cons doc rest)
  let ?c = "truncate_content (get_content doc)"
  have le: "length ?c \<le> 4024" by (rule length_truncate_content_le)
  show ?case
  proof (cases "get_content doc = []")
    case True
    then show ?thesis using Cons by (simp add: budget_loop_step)
  next
    case ne: False
    show ?thesis
    proof (cases "tc + length ?c > MAX_TOTAL_CONTEXT")
      case over: True
      have "chunks \<noteq> []"
      proof
        assume "chunks = []"
        with Cons.prems have "tc = 0" by simp
        with over le show False by (simp add: MAX_TOTAL_CONTEXT_def)
      qed
      then show ?thesis using ne over by (simp add: budget_loop_step)
    next
      case fits: False
      have "snd (budget_loop rest (chunks @ [?c]) (tc + length ?c)) \<noteq> HardTruncated"
        by (rule Cons.IH) simp
      then show ?thesis using ne fits by (simp add: budget_loop_step)
    qed
  qed
qed

lemma budget_loop_extends:
  "\<exists>more. fst (budget_loop docs chunks tc) = chunks @ more"
proof (induction docs arbitrary: chunks tc)
  case Nil
  then show ?case by simp
next
  case (Cons doc rest)
  let ?c = "truncate_content (get_content doc)"
  from Cons.IH[of "chunks @ [?c]" "tc + length ?c"]
  obtain more where
    "fst (budget_loop rest (chunks @ [?c]) (tc + length ?c)) = chunks @ ([?c] @ more)"
    by auto
  then have "\<exists>more. fst (budget_loop rest (chunks @ [?c]) (tc + length ?c)) = chunks @ more"
    by blast
  then show ?case using Cons.IH[of chunks tc]
    by (simp add: budget_loop_step)
qed

lemma budget_loop_nonempty:
  "\<exists>d \<in> set docs. get_content d \<noteq> [] \<Longrightarrow> fst (budget_loop docs chunks tc) \<noteq> []"
proof (induction docs arbitrary: chunks tc)
  case Nil
  then show ?case by simp
next
  case (Cons doc rest)
  let ?c = "truncate_content (get_content doc)"
  show ?case
  proof (cases "get_content doc = []")
    case True
    with Cons.prems have "\<exists>d \<in> set rest. get_content d \<noteq> []" by auto
    from Cons.IH[OF this] True show ?thesis
      by (simp add: budget_loop_step)
  next
    case ne: False
    obtain more where
      "fst (budget_loop rest (chunks @ [?c]) (tc + length ?c)) = (chunks @ [?c]) @ more"
      using budget_loop_extends by blast
    then have "fst (budget_loop rest (chunks @ [?c]) (tc + length ?c)) \<noteq> []" by simp
    then show ?thesis using ne by (simp add: budget_loop_step)
  qed
qed

lemma budget_loop_prefix:
  "(chunks = [] \<longrightarrow> tc = 0) \<Longrightarrow>
   \<exists>n. fst (budget_loop docs chunks tc) = chunks @ take n (ranked_fragments docs)"
proof (induction docs arbitrary: chunks tc)
  case Nil
  then show ?case by (simp add: ranked_fragments_def)
next
  case (Cons doc rest)
  let ?c = "truncate_content (get_content doc)"
  have le: "length ?c \<le> 4024" by (rule length_truncate_content_le)
  show ?case
  proof (cases "get_content doc = []")
    case True
    then have "ranked_fragments (doc # rest) = ranked_fragments rest"
      by (simp add: ranked_fragments_def)
    then show ?thesis using Cons True by (simp add: budget_loop_step)
  next
    case ne: False
    then have rf: "ranked_fragments (doc # rest) = ?c # ranked_fragments rest"
      by (simp add: ranked_fragments_def)
    show ?thesis
    proof (cases "tc + length ?c > MAX_TOTAL_CONTEXT")
      case over: True
      have "chunks \<noteq> []"
      proof
        assume "chunks = []"
        with Cons.prems have "tc = 0" by simp
        with over le show False by (simp add: MAX_TOTAL_CONTEXT_def)
      qed
      then have "fst (budget_loop (doc # rest) chunks tc)
                   = chunks @ take 0 (ranked_fragments (doc # rest))"
        using ne over by (simp add: budget_loop_step)
      then show ?thesis by blast
    next
      case fits: False
      obtain n where "fst (budget_loop rest (chunks @ [?c]) (tc + length ?c))
                       = (chunks @ [?c]) @ take n (ranked_fragments rest)"
        using Cons.IH[of "chunks @ [?c]" "tc + length ?c"] by auto
      then have "fst (budget_loop (doc # rest) chunks tc)
                   = chunks @ take (Suc n) (ranked_fragments (doc # rest))"
        using ne fits rf by (simp add: budget_loop_step)
      then show ?thesis by blast
    qed
  qed
qed

lemma budget_context_take:
  "\<exists>n. budget_context docs = take n (ranked_fragments docs)"
  using budget_loop_prefix[of "[]" 0 docs] by (simp add: budget_context_def)

lemma ranked_fragments_length:
  "f \<in> set (ranked_fragments docs) \<Longrightarrow> length f \<le> 4024"
  by (auto simp: ranked_fragments_def length_truncate_content_le)

lemma budget_context_fragment_length:
  assumes "f \<in> set (budget_context docs)"
  shows "length f \<le> 4024"
proof -
  obtain n where "budget_context docs = take n (ranked_fragments docs)"
    using budget_context_take by blast
  with assms have "f \<in> set (ranked_fragments docs)" by (auto dest: in_set_takeD)
  then show ?thesis by (rule ranked_fragments_length)
qed

text \<open>
  C1. The combined length of the fragments that the budgeting step produces never
  exceeds \<open>MAX_TOTAL_CONTEXT\<close> (12000), except when the loop is left through the hard
  truncation of an oversized first fragment; the result is then that single fragment,
  of exactly \<open>MAX_TOTAL_CONTEXT\<close> characters plus the length of the end marker.
\<close>

theorem budget_total_bounded:
  "total_length (budget_context docs) \<le> MAX_TOTAL_CONTEXT \<or>
   (budget_exit docs = HardTruncated \<and>
    (\<exists>f. budget_context docs = [f] \<and>
         length f = MAX_TOTAL_CONTEXT + length TRUNCATED_END))"
  using budget_loop_total[of 0 "[]" docs]
  by (simp add: budget_context_def budget_exit_def total_length_def)

text \<open>
  C2. When at least one document of the list has a non-empty content, the budgeting
  step produces at least one fragment.
\<close>

theorem budget_nonempty:
  assumes "\<exists>d \<in> set docs. \<exists>c. doc_content d = Some c \<and> c \<noteq> []"
  shows "budget_context docs \<noteq> []"
proof -
  from assms obtain d c where "d \<in> set docs" and "doc_content d = Some c" and "c \<noteq> []"
    by blast
  then have "\<exists>d \<in> set docs. get_content d \<noteq> []"
    by (auto simp: get_content_def intro!: bexI[of _ d])
  then show ?thesis unfolding budget_context_def by (rule budget_loop_nonempty)
qed

theorem budget_nonempty_witness:
  "(\<exists>d \<in> set [doc_of_content [], doc_of_content (ustr ''valve'')].
      \<exists>c. doc_content d = Some c \<and> c \<noteq> []) \<and>
   budget_context [doc_of_content [], doc_of_content (ustr ''valve'')] \<noteq> []"
proof -
  have h: "\<exists>d \<in> set [doc_of_content [], doc_of_content (ustr ''valve'')].
             \<exists>c. doc_content d = Some c \<and> c \<noteq> []"
    by (simp add: doc_of_content_def ustr_def)
  from h budget_nonempty[OF h] show ?thesis by blast
qed

text \<open>
  C3. A content longer than \<open>MAX_CHARS_PER_CHUNK\<close> = 4000 characters becomes the fragment made
  of its first 2000 characters, the marker and its last 2000 characters, 2000 + 24 + 2000
  characters in all; this is the fragment the budgeting step keeps for such a document.
\<close>

theorem truncate_long_content:
  assumes "doc_content doc = Some content" and "length content > MAX_CHARS_PER_CHUNK"
  shows "truncate_content content =
           take 2000 content @ TRUNCATED_MIDDLE @ drop (length content - 2000) content \<and>
         length (take 2000 content) = 2000 \<and>
         length (drop (length content - 2000) content) = 2000 \<and>
         length (truncate_content content) = 2000 + length TRUNCATED_MIDDLE + 2000 \<and>
         budget_context [doc] = [truncate_content content]"
proof -
  have long: "length content > 4000" using assms(2) by (simp add: MAX_CHARS_PER_CHUNK_def)
  have ne: "get_content doc \<noteq> []" using assms(1) long by (auto simp: get_content_def)
  have gc: "get_content doc = content" using assms(1) by (simp add: get_content_def)
  have len: "length (truncate_content content) = 4024"
    using assms(2) by (rule length_truncate_content_long)
  have "budget_loop [doc] [] 0 = ([truncate_content content], Exhausted)"
    using ne gc len by (simp add: budget_loop_step MAX_TOTAL_CONTEXT_def)
  then have "budget_context [doc] = [truncate_content content]"
    by (simp add: budget_context_def)
  then show ?thesis
    using long len truncate_content_long[OF assms(2)] by (simp add: length_TRUNCATED_MIDDLE)
qed

theorem truncate_long_content_witness:
  "doc_content (doc_of_content (replicate 6000 97 @ replicate 4000 98))
     = Some (replicate 6000 97 @ replicate 4000 98) \<and>
   length (replicate 6000 (97::nat) @ replicate 4000 98) > MAX_CHARS_PER_CHUNK \<and>
   budget_context [doc_of_content (replicate 6000 97 @ replicate 4000 98)]
     = [replicate 2000 97 @ TRUNCATED_MIDDLE @ replicate 2000 98]"
proof -
  have h1: "doc_content (doc_of_content (replicate 6000 97 @ replicate 4000 98))
              = Some (replicate 6000 97 @ replicate 4000 98)"
    by (simp add: doc_of_content_def)
  have h2: "length (replicate 6000 (97::nat) @ replicate 4000 98) > MAX_CHARS_PER_CHUNK"
    by (simp add: MAX_CHARS_PER_CHUNK_def)
  from truncate_long_content[OF h1 h2] h1 h2 show ?thesis by simp
qed

text \<open>
  C10, as stated with the bound 4022, fails: a content of 4001 characters gives a fragment
  of 2000 + 24 + 2000 = 4024 characters, and the budgeting step accepts it.
\<close>

theorem fragment_bound_4022_counterexample:
  "budget_context [doc_of_content (replicate 4001 97)] = [truncate_content (replicate 4001 97)] \<and>
   length (truncate_content (replicate 4001 97)) = 4024 \<and>
   \<not> length (truncate_content (replicate 4001 97)) \<le> 4022"
proof -
  have h1: "doc_content (doc_of_content (replicate 4001 97)) = Some (replicate 4001 97)"
    by (simp add: doc_of_content_def)
  have h2: "length (replicate 4001 (97::nat)) > MAX_CHARS_PER_CHUNK"
    by (simp add: MAX_CHARS_PER_CHUNK_def)
  have "budget_loop [doc_of_content (replicate 4001 97)] [] 0
          = ([truncate_content (replicate 4001 97)], Exhausted)"
    using h1 h2 length_truncate_content_long[OF h2]
    by (simp add: budget_loop_step get_content_def MAX_TOTAL_CONTEXT_def
            )
  then show ?thesis
    using length_truncate_content_long[OF h2] by (simp add: budget_context_def)
qed

text \<open>
  C10, amended. Every fragment that the budgeting step accepts has at most
  \<open>MAX_CHARS_PER_CHUNK\<close> plus the length of the middle marker, that is 4024, characters,
  and the loop is never left through the hard truncation of line 103.
\<close>

theorem fragment_bound_and_no_hard_truncation:
  "(\<forall>f \<in> set (budget_context docs).
       length f \<le> MAX_CHARS_PER_CHUNK + length TRUNCATED_MIDDLE) \<and>
   MAX_CHARS_PER_CHUNK + length TRUNCATED_MIDDLE = 4024 \<and>
   budget_exit docs \<noteq> HardTruncated"
proof -
  have "budget_exit docs \<noteq> HardTruncated"
    unfolding budget_exit_def by (rule budget_loop_no_hard) simp
  then show ?thesis
    by (auto simp: MAX_CHARS_PER_CHUNK_def length_TRUNCATED_MIDDLE
             dest: budget_context_fragment_length)
qed

theorem fragment_bound_and_no_hard_truncation_witness:
  "ustr ''pump'' \<in> set (budget_context [doc_of_content (ustr ''pump'')]) \<and>
   length (ustr ''pump'') \<le> MAX_CHARS_PER_CHUNK + length TRUNCATED_MIDDLE \<and>
   budget_exit [doc_of_content (ustr ''pump'')] \<noteq> HardTruncated"
proof -
  have m: "ustr ''pump'' \<in> set (budget_context [doc_of_content (ustr ''pump'')])"
    by (simp add: budget_context_def budget_loop_step doc_of_content_def get_content_def
          ustr_def truncate_content_def MAX_CHARS_PER_CHUNK_def MAX_TOTAL_CONTEXT_def)
  from fragment_bound_and_no_hard_truncation[of "[doc_of_content (ustr ''pump'')]"] m
  show ?thesis by blast
qed

section \<open>Properties of the gateways and of the pipeline\<close>

declare str_nat.simps [simp del]

lemma py_in_eval:
  "py_in [] hay"
  "\<not> py_in (x # xs) []"
  "py_in (x # xs) (y # ys) = (prefix (x # xs) (y # ys) \<or> py_in (x # xs) ys)"
  by (simp_all add: py_in_def sublist_code)

lemma py_in_append: "py_in x b \<Longrightarrow> py_in x (a @ b @ c)"
  by (metis py_in_def sublist_appendI sublist_order.order_trans)

subsection \<open>The call and its retry\<close>

lemma create_with_retry_ok:
  "backend calls p = Inr r \<Longrightarrow> create_with_retry L backend calls p = (Inr r, calls @ [p])"
  by (simp add: create_with_retry_def create_def)

lemma create_with_retry_raise:
  "backend calls p = Inl e \<Longrightarrow> \<not> names_unsupported_temperature L e \<Longrightarrow>
   create_with_retry L backend calls p = (Inl e, calls @ [p])"
  by (simp add: create_with_retry_def create_def)

lemma create_with_retry_retry:
  "backend calls p = Inl e \<Longrightarrow> names_unsupported_temperature L e \<Longrightarrow>
   create_with_retry L backend calls p =
     (backend (calls @ [p]) (p\<lparr>cp_temperature := None\<rparr>),
      calls @ [p, p\<lparr>cp_temperature := None\<rparr>])"
  by (simp add: create_with_retry_def create_def)

lemma generate_response_calls:
  "snd (generate_response L self calls sp um cc t) =
     snd (create_with_retry L (create_completion self) calls
            (build_call_params self False (build_messages sp um cc) t))"
  by (simp add: generate_response_def Let_def split: prod.splits sum.splits)

lemma generate_response_stream_calls:
  "snd (generate_response_stream L self calls sp um cc t) =
     snd (create_with_retry L (create_stream self) calls
            (build_call_params self True (build_messages sp um cc) t))"
  by (simp add: generate_response_stream_def Let_def split: prod.splits sum.splits)

lemma generate_response_raise:
  assumes "create_completion self calls
             (build_call_params self False (build_messages sp um cc) t) = Inl e"
    and "\<not> names_unsupported_temperature L e"
  shows "generate_response L self calls sp um cc t =
           (Inl (classify_error L e),
            calls @ [build_call_params self False (build_messages sp um cc) t])"
  using assms
  by (simp add: generate_response_def Let_def create_with_retry_def create_def)

lemma generate_response_ok:
  assumes "create_completion self calls
             (build_call_params self False (build_messages sp um cc) t) = Inr (Some T # rest)"
  shows "generate_response L self calls sp um cc t =
           (Inr (str_strip L T),
            calls @ [build_call_params self False (build_messages sp um cc) t])"
  using assms
  by (simp add: generate_response_def Let_def create_with_retry_def create_def
        response_text_def)

lemma generate_response_stream_raise:
  assumes "create_stream self calls
             (build_call_params self True (build_messages sp um cc) t) = Inl e"
    and "\<not> names_unsupported_temperature L e"
  shows "generate_response_stream L self calls sp um cc t =
           ([stream_error_chunk L e],
            calls @ [build_call_params self True (build_messages sp um cc) t])"
  using assms
  by (simp add: generate_response_stream_def Let_def create_with_retry_def create_def)

lemma concat_chunk_yield: "concat (chunk_yield c) = delta_text c"
  by (induction c rule: chunk_yield.induct) simp_all

lemma concat_stream_yields: "concat (concat (map chunk_yield cs)) = stream_text cs"
  by (induction cs) (simp_all add: stream_text_def concat_chunk_yield)


subsection \<open>The pipeline\<close>

lemma rag_answer_sources:
  assumes "search_documents_text_only (search_client self) q k = Inr docs"
  shows "sources (fst (rag_answer L self calls q k t)) = [] \<or>
         sources (fst (rag_answer L self calls q k t)) = map source_of docs"
  using assms
  by (simp add: rag_answer_def Let_def split: prod.splits sum.splits)

lemma rag_answer_generated:
  assumes "search_documents_text_only (search_client self) q k = Inr docs"
    and "budget_context docs \<noteq> []"
  shows "rag_answer L self calls q k t =
           (case generate_response L (openai_client self) calls (system_prompt self) q
                   (budget_context docs) t of
              (Inl error_message, calls1) \<Rightarrow>
                (\<lparr>answer = error_answer L error_message, sources = []\<rparr>, calls1)
            | (Inr text, calls1) \<Rightarrow>
                (\<lparr>answer = text, sources = map source_of docs\<rparr>, calls1))"
proof -
  from assms(2) have "docs \<noteq> []" by (auto simp: budget_context_def)
  then show ?thesis using assms by (simp add: rag_answer_def Let_def)
qed

lemma rag_answer_stream_generated:
  assumes "search_documents_text_only (search_client self) q k = Inr docs"
    and "budget_context docs \<noteq> []"
  shows "rag_answer_stream L self calls q k t =
           (\<lparr>yielded = fst (generate_response_stream L (openai_client self) calls
                              (system_prompt self) q (budget_context docs) t),
             returned_sources = map source_of docs\<rparr>,
            snd (generate_response_stream L (openai_client self) calls
                   (system_prompt self) q (budget_context docs) t))"
proof -
  from assms(2) have "docs \<noteq> []" by (auto simp: budget_context_def)
  then show ?thesis using assms
    by (simp add: rag_answer_stream_def Let_def split: prod.splits)
qed

lemma budget_context_subseq:
  "subseq (budget_context docs) (map (\<lambda>d. truncate_content (get_content d)) docs)"
proof -
  obtain n where n: "budget_context docs = take n (ranked_fragments docs)"
    using budget_context_take by blast
  have "subseq (filter (\<lambda>c. c \<noteq> []) (map get_content docs)) (map get_content docs)"
    by simp
  then have "subseq (ranked_fragments docs) (map truncate_content (map get_content docs))"
    unfolding ranked_fragments_def by (rule subseq_map)
  moreover have "subseq (take n (ranked_fragments docs)) (ranked_fragments docs)"
    by (metis append_take_drop_id prefixI prefix_imp_subseq)
  ultimately show ?thesis using n by (auto simp: comp_def intro: subseq_order.trans)
qed

subsection \<open>The concrete pipelines\<close>

lemma search_pipeline_of:
  "search_documents_text_only (search_client (pipeline_of hits client)) q k
     = Inr (map to_document (take (nat k) hits))"
  by (simp add: search_documents_text_only_def search_documents_def pipeline_of_def)

lemma budget_filter_doc:
  "budget_context [to_document filter_hit] = [ustr ''Replace the filter'']"
  by (simp add: budget_context_def budget_loop_step to_document_def filter_hit_def
        get_content_def truncate_content_def MAX_CHARS_PER_CHUNK_def MAX_TOTAL_CONTEXT_def
        ustr_def)

lemma budget_filter_blank_docs:
  "budget_context [to_document filter_hit, to_document blank_hit] = [ustr ''Replace the filter'']"
  by (simp add: budget_context_def budget_loop_step to_document_def filter_hit_def
        blank_hit_def get_content_def truncate_content_def MAX_CHARS_PER_CHUNK_def
        MAX_TOTAL_CONTEXT_def ustr_def)

lemma budget_blank_doc: "budget_context [to_document blank_hit] = []"
  by (simp add: budget_context_def budget_loop_step to_document_def blank_hit_def
        get_content_def)

lemma source_of_filter_hit:
  "source_of (to_document filter_hit) =
     \<lparr>source = ustr ''manual.pdf'', score = 2, path = Some (ustr ''docs/manual.pdf'')\<rparr>"
  by (simp add: source_of_def to_document_def filter_hit_def)

lemma stream_text_characters: "stream_text (map (\<lambda>c. [Delta (Some [c])]) T) = T"
  by (induction T) (simp_all add: stream_text_def)

lemma strip_ok: "ascii_strip (ustr ''ok'') = ustr ''ok''"
  by (simp add: ascii_strip_def ascii_space_def ustr_def)


lemma code_429: "py_in (ustr ''429'') THROTTLED"
  by (simp add: py_in_eval ustr_def THROTTLED_def)

lemma code_429_not_temperature: "\<not> names_unsupported_temperature ascii_runtime THROTTLED"
  by (simp add: names_unsupported_temperature_def ascii_runtime_def ascii_lower_def
        py_in_eval ustr_def THROTTLED_def)

lemma rejection_names_temperature: "names_unsupported_temperature ascii_runtime REJECTION"
  by (simp add: names_unsupported_temperature_def ascii_runtime_def ascii_lower_def
        py_in_eval ustr_def REJECTION_def)

lemma rejection_429: "py_in (ustr ''429'') REJECTION"
  by (simp add: py_in_eval ustr_def REJECTION_def)

lemma limit_reached_in_messages:
  "py_in LIMIT_REACHED RATE_LIMIT_MESSAGE" "py_in WAIT_GUIDANCE RATE_LIMIT_MESSAGE"
  "py_in LIMIT_REACHED STREAM_RATE_LIMIT" "py_in WAIT_GUIDANCE STREAM_RATE_LIMIT"
  by (simp_all add: py_in_eval ustr_def LIMIT_REACHED_def WAIT_GUIDANCE_def
        RATE_LIMIT_MESSAGE_def STREAM_RATE_LIMIT_def)

lemma limit_reached_not_in_ok: "\<not> py_in LIMIT_REACHED (ustr ''ok'')"
  by (simp add: py_in_eval ustr_def LIMIT_REACHED_def)

lemma error_answer_rate_limit:
  "error_answer L RATE_LIMIT_MESSAGE =
     ([9888, 65039] @ ustr '' **'' @ LIMIT_REACHED @ ustr ''**'' @ [10, 10]) @
     RATE_LIMIT_MESSAGE @
     ([10, 10] @ ustr ''Por favor, espera un momento antes de hacer otra pregunta.'')"
  using limit_reached_in_messages(1) by (simp add: error_answer_def)

lemma guidance_in_error_answer:
  "py_in LIMIT_REACHED (error_answer L RATE_LIMIT_MESSAGE)"
  "py_in WAIT_GUIDANCE (error_answer L RATE_LIMIT_MESSAGE)"
  unfolding error_answer_rate_limit
  by (rule py_in_append, rule limit_reached_in_messages)+

lemma classify_429: "py_in (ustr ''429'') e \<Longrightarrow> classify_error L e = RATE_LIMIT_MESSAGE"
  by (simp add: classify_error_def is_rate_limit_def)

lemma stream_chunk_429: "py_in (ustr ''429'') e \<Longrightarrow> stream_error_chunk L e = STREAM_RATE_LIMIT"
  by (simp add: stream_error_chunk_def is_rate_limit_def)

lemma answering_blocking:
  "generate_response L (answering T) calls sp um cc t =
     (Inr (str_strip L T),
      calls @ [build_call_params (answering T) False (build_messages sp um cc) t])"
  by (rule generate_response_ok[where rest = "[]"]) (simp add: answering_def)


lemma pipeline_clients:
  "openai_client plain_pipeline = answering (ustr ''ok'')"
  "openai_client padded_pipeline = answering (ustr '' ok'')"
  "openai_client throttled_pipeline = failing THROTTLED"
  "openai_client picky_pipeline = rejecting_temperature REJECTION (ustr ''ok'')"
  by (simp_all add: plain_pipeline_def padded_pipeline_def throttled_pipeline_def
        picky_pipeline_def pipeline_of_def)

lemma pipeline_searches:
  "search_documents_text_only (search_client plain_pipeline) q 5
     = Inr [to_document filter_hit, to_document blank_hit]"
  "search_documents_text_only (search_client padded_pipeline) q 5 = Inr [to_document filter_hit]"
  "search_documents_text_only (search_client throttled_pipeline) q 5
     = Inr [to_document filter_hit]"
  "search_documents_text_only (search_client picky_pipeline) q 5 = Inr [to_document filter_hit]"
  "search_documents_text_only (search_client blank_pipeline) q 5 = Inr [to_document blank_hit]"
  by (simp_all add: plain_pipeline_def padded_pipeline_def throttled_pipeline_def
        picky_pipeline_def blank_pipeline_def search_pipeline_of)

lemma runtime_strip: "str_strip ascii_runtime = ascii_strip"
  by (simp add: ascii_runtime_def)

lemma picky_blocking:
  "fst (generate_response ascii_runtime (rejecting_temperature REJECTION (ustr ''ok''))
          calls sp um cc 0.3) = Inr (ustr ''ok'')"
  using rejection_names_temperature
  by (simp add: generate_response_def create_with_retry_def create_def
        rejecting_temperature_def build_call_params_def Let_def response_text_def
        runtime_strip strip_ok del: not_None_eq)

lemma failing_streaming:
  assumes "\<not> names_unsupported_temperature L msg"
  shows "fst (generate_response_stream L (failing msg) calls sp um cc t)
           = [stream_error_chunk L msg]"
  using assms
  by (simp add: generate_response_stream_def create_with_retry_def create_def failing_def
        Let_def)

subsection \<open>The outcome of the call step and what each gateway makes of it\<close>

lemma call_step_error:
  assumes "(backend calls p = Inl e \<and> \<not> names_unsupported_temperature L e) \<or>
           (\<exists>e0. backend calls p = Inl e0 \<and> names_unsupported_temperature L e0 \<and>
                 backend (calls @ [p]) (p\<lparr>cp_temperature := None\<rparr>) = Inl e)"
  shows "fst (create_with_retry L backend calls p) = Inl e"
  using assms by (auto simp: create_with_retry_def create_def)

lemma call_step_reply:
  assumes "backend calls p = Inr r \<or>
           (\<exists>e0. backend calls p = Inl e0 \<and> names_unsupported_temperature L e0 \<and>
                 backend (calls @ [p]) (p\<lparr>cp_temperature := None\<rparr>) = Inr r)"
  shows "fst (create_with_retry L backend calls p) = Inr r"
  using assms by (auto simp: create_with_retry_def create_def)

lemma generate_response_of_call_step:
  "generate_response L self calls sp um cc t =
     (case fst (create_with_retry L (create_completion self) calls
                  (build_call_params self False (build_messages sp um cc) t)) of
        Inl e \<Rightarrow> Inl (classify_error L e)
      | Inr choices \<Rightarrow>
          (case response_text L choices of
             Inl e \<Rightarrow> Inl (classify_error L e)
           | Inr a \<Rightarrow> Inr a),
      snd (create_with_retry L (create_completion self) calls
             (build_call_params self False (build_messages sp um cc) t)))"
  by (simp add: generate_response_def Let_def split: prod.splits sum.splits)

lemma generate_response_stream_of_call_step:
  "generate_response_stream L self calls sp um cc t =
     (case fst (create_with_retry L (create_stream self) calls
                  (build_call_params self True (build_messages sp um cc) t)) of
        Inl e \<Rightarrow> [stream_error_chunk L e]
      | Inr s \<Rightarrow>
          concat (map chunk_yield (stream_chunks s)) @
          (case stream_failure s of None \<Rightarrow> [] | Some e \<Rightarrow> [stream_error_chunk L e]),
      snd (create_with_retry L (create_stream self) calls
             (build_call_params self True (build_messages sp um cc) t)))"
  by (simp add: generate_response_stream_def Let_def split: prod.splits sum.splits)

lemma rag_answer_of_generation:
  assumes "search_documents_text_only (search_client self) q k = Inr docs"
    and "budget_context docs \<noteq> []"
  shows "fst (rag_answer L self calls q k t) =
           (case fst (generate_response L (openai_client self) calls (system_prompt self) q
                        (budget_context docs) t) of
              Inl error_message \<Rightarrow> \<lparr>answer = error_answer L error_message, sources = []\<rparr>
            | Inr reply \<Rightarrow> \<lparr>answer = reply, sources = map source_of docs\<rparr>)"
  by (simp add: rag_answer_generated[OF assms] split: prod.splits sum.splits)

text \<open>
  Once the generation step is reached, \<open>rag_answer_stream\<close> returns the sources of all the
  retrieved documents whatever the backend does, an error included: the gateway yields
  the error as a chunk, so the handler of lines 254 to 260, which returns an empty list,
  is not entered. This differs from \<open>rag_answer\<close>, which returns an empty list on every
  error of the generation step.
\<close>

lemma rag_answer_stream_sources:
  assumes "search_documents_text_only (search_client self) q k = Inr docs"
    and "budget_context docs \<noteq> []"
  shows "returned_sources (fst (rag_answer_stream L self calls q k t)) = map source_of docs"
    and "returned_sources (fst (rag_answer_stream L self calls q k t)) \<noteq> []"
proof -
  from assms(2) have ne: "docs \<noteq> []" by (auto simp: budget_context_def)
  show "returned_sources (fst (rag_answer_stream L self calls q k t)) = map source_of docs"
    by (simp add: rag_answer_stream_generated[OF assms])
  with ne show "returned_sources (fst (rag_answer_stream L self calls q k t)) \<noteq> []"
    by simp
qed

lemma more_pipeline_clients:
  "openai_client twice_failing_pipeline = rejecting_then_failing REJECTION THROTTLED"
  "openai_client breaking_pipeline = breaking (ustr ''ok'') THROTTLED"
  "openai_client unreachable_pipeline = answering (ustr ''ok'')"
  by (simp_all add: twice_failing_pipeline_def breaking_pipeline_def unreachable_pipeline_def
        pipeline_of_def)

lemma more_pipeline_searches:
  "search_documents_text_only (search_client twice_failing_pipeline) q 5
     = Inr [to_document filter_hit]"
  "search_documents_text_only (search_client breaking_pipeline) q 5
     = Inr [to_document filter_hit]"
  "search_documents_text_only (search_client empty_pipeline) q 5 = Inr []"
  "search_documents_text_only (search_client unreachable_pipeline) q 5
     = Inl (ustr ''Error al buscar en Azure AI Search: '' @ ustr ''Service unavailable'')"
  by (simp_all add: twice_failing_pipeline_def breaking_pipeline_def empty_pipeline_def
        unreachable_pipeline_def pipeline_of_def search_documents_text_only_def
        search_documents_def)

section \<open>Claims about the pipeline\<close>

text \<open>
  C8. When the search returns no document, \<open>rag_answer\<close> returns the fixed no-results
  answer with an empty \<open>sources\<close> list, and the log of generation-backend calls is what it
  was before the invocation: the generation backend is not called.
\<close>

theorem no_results_short_circuit:
  assumes "search_client self user_question top_k = Inr []"
  shows "rag_answer L self calls user_question top_k temperature =
           (\<lparr>answer = NO_RESULTS_ANSWER, sources = []\<rparr>, calls)"
  using assms
  by (simp add: rag_answer_def search_documents_text_only_def search_documents_def)

theorem no_results_short_circuit_witness:
  "search_client empty_pipeline QUESTION 5 = Inr [] \<and>
   rag_answer ascii_runtime empty_pipeline [] QUESTION 5 0.3 =
     (\<lparr>answer = NO_RESULTS_ANSWER, sources = []\<rparr>, [])"
proof -
  have h: "search_client empty_pipeline QUESTION 5 = Inr []"
    by (simp add: empty_pipeline_def pipeline_of_def)
  from h no_results_short_circuit[OF h, of ascii_runtime "[]" "0.3"] show ?thesis by simp
qed

text \<open>
  C7. \<open>temperature\<close> is among the arguments of the backend call exactly when it differs
  from 1.0, and then with its value. When the backend rejects the call with an error
  whose lowered text contains \<open>temperature\<close> and \<open>unsupported\<close>, the call is made once
  more, without \<open>temperature\<close>, and the outcome of that second call is the outcome: two
  calls in all, whatever the second call does. Any other error is the outcome after that
  single call. For the two gateways this means: \<open>generate_response\<close> returns the stripped
  content of the first choice of the reply (the first reply, or the reply to the retry),
  and raises, with its classified message, the error that was not retried (the first
  error, or the error of the retry); \<open>generate_response_stream\<close> yields the chunks of the
  stream it obtained (at once, or by the retry), and yields as its only chunk the
  diagnostic of the error that was not retried.
\<close>

theorem temperature_parameter_and_retry:
  fixes backend :: "call_params list \<Rightarrow> call_params \<Rightarrow> pystr + 'r"
  assumes "pb = build_call_params self False (build_messages sp um cc) temperature"
    and "ps = build_call_params self True (build_messages sp um cc) temperature"
  shows
  "(cp_temperature (build_call_params self streaming messages temperature) \<noteq> None
      \<longleftrightarrow> temperature \<noteq> 1) \<and>
   (temperature \<noteq> 1 \<longrightarrow>
      cp_temperature (build_call_params self streaming messages temperature)
        = Some temperature) \<and>
   (\<forall>e. backend calls p = Inl e \<and> names_unsupported_temperature L e \<longrightarrow>
      create_with_retry L backend calls p =
        (backend (calls @ [p]) (p\<lparr>cp_temperature := None\<rparr>),
         calls @ [p, p\<lparr>cp_temperature := None\<rparr>])) \<and>
   (\<forall>e. backend calls p = Inl e \<and> \<not> names_unsupported_temperature L e \<longrightarrow>
      create_with_retry L backend calls p = (Inl e, calls @ [p])) \<and>
   (\<forall>r. backend calls p = Inr r \<longrightarrow>
      create_with_retry L backend calls p = (Inr r, calls @ [p])) \<and>
   snd (generate_response L self calls sp um cc temperature) =
     snd (create_with_retry L (create_completion self) calls
            (build_call_params self False (build_messages sp um cc) temperature)) \<and>
   snd (generate_response_stream L self calls sp um cc temperature) =
     snd (create_with_retry L (create_stream self) calls
            (build_call_params self True (build_messages sp um cc) temperature)) \<and>
   (\<forall>choices. create_completion self calls pb = Inr choices \<longrightarrow>
      generate_response L self calls sp um cc temperature =
        (case response_text L choices of
           Inl e \<Rightarrow> Inl (classify_error L e)
         | Inr a \<Rightarrow> Inr a,
         calls @ [pb])) \<and>
   (\<forall>e. create_completion self calls pb = Inl e \<and> names_unsupported_temperature L e \<longrightarrow>
      generate_response L self calls sp um cc temperature =
        (case create_completion self (calls @ [pb]) (pb\<lparr>cp_temperature := None\<rparr>) of
           Inl e2 \<Rightarrow> Inl (classify_error L e2)
         | Inr choices \<Rightarrow>
             (case response_text L choices of
                Inl e3 \<Rightarrow> Inl (classify_error L e3)
              | Inr a \<Rightarrow> Inr a),
         calls @ [pb, pb\<lparr>cp_temperature := None\<rparr>])) \<and>
   (\<forall>e. create_completion self calls pb = Inl e \<and> \<not> names_unsupported_temperature L e \<longrightarrow>
      generate_response L self calls sp um cc temperature =
        (Inl (classify_error L e), calls @ [pb])) \<and>
   (\<forall>T rest. response_text L (Some T # rest) = Inr (str_strip L T)) \<and>
   response_text L [] = Inr NO_ANSWER \<and>
   (\<forall>e. classify_error L e = RATE_LIMIT_MESSAGE \<or>
        classify_error L e = ustr ''Error de solicitud: '' @ e \<or>
        classify_error L e = ustr ''Error al generar respuesta con Azure OpenAI: '' @ e) \<and>
   (\<forall>s. create_stream self calls ps = Inr s \<longrightarrow>
      generate_response_stream L self calls sp um cc temperature =
        (concat (map chunk_yield (stream_chunks s)) @
         (case stream_failure s of None \<Rightarrow> [] | Some e \<Rightarrow> [stream_error_chunk L e]),
         calls @ [ps])) \<and>
   (\<forall>e. create_stream self calls ps = Inl e \<and> names_unsupported_temperature L e \<longrightarrow>
      generate_response_stream L self calls sp um cc temperature =
        (case create_stream self (calls @ [ps]) (ps\<lparr>cp_temperature := None\<rparr>) of
           Inl e2 \<Rightarrow> [stream_error_chunk L e2]
         | Inr s \<Rightarrow>
             concat (map chunk_yield (stream_chunks s)) @
             (case stream_failure s of None \<Rightarrow> [] | Some e3 \<Rightarrow> [stream_error_chunk L e3]),
         calls @ [ps, ps\<lparr>cp_temperature := None\<rparr>])) \<and>
   (\<forall>e. create_stream self calls ps = Inl e \<and> \<not> names_unsupported_temperature L e \<longrightarrow>
      generate_response_stream L self calls sp um cc temperature =
        ([stream_error_chunk L e], calls @ [ps]))"
proof -
  have a: "cp_temperature (build_call_params self streaming messages temperature)
             = (if temperature \<noteq> 1 then Some temperature else None)"
    by (simp add: build_call_params_def Let_def)
  have step: "(\<forall>e. backend calls p = Inl e \<and> names_unsupported_temperature L e \<longrightarrow>
      create_with_retry L backend calls p =
        (backend (calls @ [p]) (p\<lparr>cp_temperature := None\<rparr>),
         calls @ [p, p\<lparr>cp_temperature := None\<rparr>])) \<and>
   (\<forall>e. backend calls p = Inl e \<and> \<not> names_unsupported_temperature L e \<longrightarrow>
      create_with_retry L backend calls p = (Inl e, calls @ [p])) \<and>
   (\<forall>r. backend calls p = Inr r \<longrightarrow>
      create_with_retry L backend calls p = (Inr r, calls @ [p]))"
    using create_with_retry_retry[of backend calls p _ L]
      create_with_retry_raise[of backend calls p _ L]
      create_with_retry_ok[of backend calls p _ L]
    by simp
  have g1: "\<forall>choices. create_completion self calls pb = Inr choices \<longrightarrow>
      generate_response L self calls sp um cc temperature =
        (case response_text L choices of
           Inl e \<Rightarrow> Inl (classify_error L e)
         | Inr a \<Rightarrow> Inr a,
         calls @ [pb])"
    unfolding assms(1)
    by (simp add: generate_response_of_call_step create_with_retry_def create_def)
  have g2: "\<forall>e. create_completion self calls pb = Inl e \<and> names_unsupported_temperature L e \<longrightarrow>
      generate_response L self calls sp um cc temperature =
        (case create_completion self (calls @ [pb]) (pb\<lparr>cp_temperature := None\<rparr>) of
           Inl e2 \<Rightarrow> Inl (classify_error L e2)
         | Inr choices \<Rightarrow>
             (case response_text L choices of
                Inl e3 \<Rightarrow> Inl (classify_error L e3)
              | Inr a \<Rightarrow> Inr a),
         calls @ [pb, pb\<lparr>cp_temperature := None\<rparr>])"
    unfolding assms(1)
    by (simp add: generate_response_of_call_step create_with_retry_def create_def)
  have g4: "\<forall>e. create_completion self calls pb = Inl e \<and> \<not> names_unsupported_temperature L e \<longrightarrow>
      generate_response L self calls sp um cc temperature =
        (Inl (classify_error L e), calls @ [pb])"
    unfolding assms(1)
    by (simp add: generate_response_of_call_step create_with_retry_def create_def)
  have r: "(\<forall>T rest. response_text L (Some T # rest) = Inr (str_strip L T)) \<and>
           response_text L [] = Inr NO_ANSWER"
    by (simp add: response_text_def)
  have c: "\<forall>e. classify_error L e = RATE_LIMIT_MESSAGE \<or>
        classify_error L e = ustr ''Error de solicitud: '' @ e \<or>
        classify_error L e = ustr ''Error al generar respuesta con Azure OpenAI: '' @ e"
    by (simp add: classify_error_def)
  have t1: "\<forall>s. create_stream self calls ps = Inr s \<longrightarrow>
      generate_response_stream L self calls sp um cc temperature =
        (concat (map chunk_yield (stream_chunks s)) @
         (case stream_failure s of None \<Rightarrow> [] | Some e \<Rightarrow> [stream_error_chunk L e]),
         calls @ [ps])"
    unfolding assms(2)
    by (simp add: generate_response_stream_of_call_step create_with_retry_def create_def)
  have t2: "\<forall>e. create_stream self calls ps = Inl e \<and> names_unsupported_temperature L e \<longrightarrow>
      generate_response_stream L self calls sp um cc temperature =
        (case create_stream self (calls @ [ps]) (ps\<lparr>cp_temperature := None\<rparr>) of
           Inl e2 \<Rightarrow> [stream_error_chunk L e2]
         | Inr s \<Rightarrow>
             concat (map chunk_yield (stream_chunks s)) @
             (case stream_failure s of None \<Rightarrow> [] | Some e3 \<Rightarrow> [stream_error_chunk L e3]),
         calls @ [ps, ps\<lparr>cp_temperature := None\<rparr>])"
    unfolding assms(2)
    by (simp add: generate_response_stream_of_call_step create_with_retry_def create_def)
  have t4: "\<forall>e. create_stream self calls ps = Inl e \<and> \<not> names_unsupported_temperature L e \<longrightarrow>
      generate_response_stream L self calls sp um cc temperature =
        ([stream_error_chunk L e], calls @ [ps])"
    unfolding assms(2)
    by (simp add: generate_response_stream_of_call_step create_with_retry_def create_def)
  have p1: "(cp_temperature (build_call_params self streaming messages temperature) \<noteq> None
      \<longleftrightarrow> temperature \<noteq> 1) \<and>
   (temperature \<noteq> 1 \<longrightarrow>
      cp_temperature (build_call_params self streaming messages temperature)
        = Some temperature)"
    using a by simp
  note l = generate_response_calls[of L self calls sp um cc temperature]
    generate_response_stream_calls[of L self calls sp um cc temperature]
  show ?thesis
    by (intro conjI p1[THEN conjunct1] p1[THEN conjunct2] step[THEN conjunct1]
          step[THEN conjunct2, THEN conjunct1] step[THEN conjunct2, THEN conjunct2]
          l g1 g2 g4 r[THEN conjunct1] r[THEN conjunct2] c t1 t2 t4)
qed

theorem temperature_parameter_and_retry_witness:
  "(0.3::real) \<noteq> 1 \<and>
   cp_temperature (build_call_params (rejecting_temperature REJECTION (ustr ''ok'')) False
                     (build_messages [] QUESTION []) 0.3) = Some 0.3 \<and>
   names_unsupported_temperature ascii_runtime REJECTION \<and>
   create_completion (rejecting_temperature REJECTION (ustr ''ok'')) []
     (build_call_params (rejecting_temperature REJECTION (ustr ''ok'')) False
        (build_messages [] QUESTION []) 0.3) = Inl REJECTION \<and>
   generate_response ascii_runtime (rejecting_temperature REJECTION (ustr ''ok'')) [] []
     QUESTION [] 0.3
     = (Inr (ustr ''ok''),
        [build_call_params (rejecting_temperature REJECTION (ustr ''ok'')) False
           (build_messages [] QUESTION []) 0.3,
         (build_call_params (rejecting_temperature REJECTION (ustr ''ok'')) False
            (build_messages [] QUESTION []) 0.3)\<lparr>cp_temperature := None\<rparr>]) \<and>
   concat (fst (generate_response_stream ascii_runtime
                  (rejecting_temperature REJECTION (ustr ''ok'')) [] [] QUESTION [] 0.3))
     = ustr ''ok'' \<and>
   \<not> names_unsupported_temperature ascii_runtime THROTTLED \<and>
   generate_response ascii_runtime (failing THROTTLED) [] [] QUESTION [] 0.3
     = (Inl (classify_error ascii_runtime THROTTLED),
        [build_call_params (failing THROTTLED) False (build_messages [] QUESTION []) 0.3]) \<and>
   generate_response_stream ascii_runtime (failing THROTTLED) [] [] QUESTION [] 0.3
     = ([stream_error_chunk ascii_runtime THROTTLED],
        [build_call_params (failing THROTTLED) True (build_messages [] QUESTION []) 0.3]) \<and>
   generate_response ascii_runtime (answering (ustr ''ok'')) [] [] QUESTION [] 1
     = (Inr (ustr ''ok''),
        [build_call_params (answering (ustr ''ok'')) False (build_messages [] QUESTION []) 1]) \<and>
   cp_temperature (build_call_params (answering (ustr ''ok'')) False
                     (build_messages [] QUESTION []) 1) = None"
proof -
  let ?c = "rejecting_temperature REJECTION (ustr ''ok'')"
  let ?m = "build_messages [] QUESTION []"
  let ?p = "build_call_params ?c False ?m 0.3"
  let ?ps = "build_call_params ?c True ?m 0.3"
  let ?q = "build_call_params (failing THROTTLED) False ?m 0.3"
  let ?qs = "build_call_params (failing THROTTLED) True ?m 0.3"
  let ?r = "build_call_params (answering (ustr ''ok'')) False ?m 1"
  have ne: "(0.3::real) \<noteq> 1" by simp
  note picky = temperature_parameter_and_retry
                 [OF refl refl, where self = "?c" and L = ascii_runtime and calls = "[]"
                    and sp = "[]" and um = QUESTION and cc = "[]" and temperature = "0.3"
                    and streaming = False and messages = "?m"]
  note throttled = temperature_parameter_and_retry
                 [OF refl refl, where self = "failing THROTTLED" and L = ascii_runtime
                    and calls = "[]" and sp = "[]" and um = QUESTION and cc = "[]"
                    and temperature = "0.3"]
  note plain = temperature_parameter_and_retry
                 [OF refl refl, where self = "answering (ustr ''ok'')" and L = ascii_runtime
                    and calls = "[]" and sp = "[]" and um = QUESTION and cc = "[]"
                    and temperature = 1 and streaming = False and messages = "?m"]
  have t: "cp_temperature ?p = Some 0.3" using picky ne by blast
  have ts: "cp_temperature ?ps = Some 0.3" by (simp add: build_call_params_def)
  have h1: "names_unsupported_temperature ascii_runtime REJECTION"
    by (rule rejection_names_temperature)
  have h2: "create_completion ?c [] ?p = Inl REJECTION"
    using t by (simp add: rejecting_temperature_def del: not_None_eq)
  have h2s: "create_stream ?c [] ?ps = Inl REJECTION"
    using ts by (simp add: rejecting_temperature_def del: not_None_eq)
  have h3: "create_completion ?c [?p] (?p\<lparr>cp_temperature := None\<rparr>)
              = Inr [Some (ustr ''ok'')]"
    by (simp add: rejecting_temperature_def)
  have h3s: "create_stream ?c [?ps] (?ps\<lparr>cp_temperature := None\<rparr>)
              = Inr \<lparr>stream_chunks = map (\<lambda>c. [Delta (Some [c])]) (ustr ''ok''),
                     stream_failure = None\<rparr>"
    by (simp add: rejecting_temperature_def)
  have h4: "\<not> names_unsupported_temperature ascii_runtime THROTTLED"
    by (rule code_429_not_temperature)
  have h5: "create_completion (failing THROTTLED) [] ?q = Inl THROTTLED"
    by (simp add: failing_def)
  have h5s: "create_stream (failing THROTTLED) [] ?qs = Inl THROTTLED"
    by (simp add: failing_def)
  have h6: "create_completion (answering (ustr ''ok'')) [] ?r = Inr [Some (ustr ''ok'')]"
    by (simp add: answering_def)
  from picky have "response_text ascii_runtime (Some (ustr ''ok'') # [])
                     = Inr (str_strip ascii_runtime (ustr ''ok''))"
    by blast
  then have rt: "response_text ascii_runtime [Some (ustr ''ok'')] = Inr (ustr ''ok'')"
    by (simp add: runtime_strip strip_ok)
  from picky h1 h2 have
    "generate_response ascii_runtime ?c [] [] QUESTION [] 0.3 =
       (case create_completion ?c ([] @ [?p]) (?p\<lparr>cp_temperature := None\<rparr>) of
          Inl e2 \<Rightarrow> Inl (classify_error ascii_runtime e2)
        | Inr choices \<Rightarrow>
            (case response_text ascii_runtime choices of
               Inl e3 \<Rightarrow> Inl (classify_error ascii_runtime e3)
             | Inr a \<Rightarrow> Inr a),
        [] @ [?p, ?p\<lparr>cp_temperature := None\<rparr>])"
    by blast
  then have r1: "generate_response ascii_runtime ?c [] [] QUESTION [] 0.3 =
                   (Inr (ustr ''ok''), [?p, ?p\<lparr>cp_temperature := None\<rparr>])"
    by (simp add: h3 rt)
  from picky h1 h2s have
    "generate_response_stream ascii_runtime ?c [] [] QUESTION [] 0.3 =
       (case create_stream ?c ([] @ [?ps]) (?ps\<lparr>cp_temperature := None\<rparr>) of
          Inl e2 \<Rightarrow> [stream_error_chunk ascii_runtime e2]
        | Inr s \<Rightarrow>
            concat (map chunk_yield (stream_chunks s)) @
            (case stream_failure s of
               None \<Rightarrow> []
             | Some e3 \<Rightarrow> [stream_error_chunk ascii_runtime e3]),
        [] @ [?ps, ?ps\<lparr>cp_temperature := None\<rparr>])"
    by blast
  then have "fst (generate_response_stream ascii_runtime ?c [] [] QUESTION [] 0.3) =
               concat (map chunk_yield (map (\<lambda>c. [Delta (Some [c])]) (ustr ''ok'')))"
    by (simp add: h3s)
  then have "concat (fst (generate_response_stream ascii_runtime ?c [] [] QUESTION [] 0.3))
               = stream_text (map (\<lambda>c. [Delta (Some [c])]) (ustr ''ok''))"
    by (simp only: concat_stream_yields)
  then have r1s: "concat (fst (generate_response_stream ascii_runtime ?c [] [] QUESTION []
                                 0.3)) = ustr ''ok''"
    by (simp only: stream_text_characters)
  from throttled h4 h5 have
    r2: "generate_response ascii_runtime (failing THROTTLED) [] [] QUESTION [] 0.3 =
           (Inl (classify_error ascii_runtime THROTTLED), [] @ [?q])"
    by blast
  from throttled h4 h5s have
    r2s: "generate_response_stream ascii_runtime (failing THROTTLED) [] [] QUESTION [] 0.3 =
            ([stream_error_chunk ascii_runtime THROTTLED], [] @ [?qs])"
    by blast
  from plain h6 have
    "generate_response ascii_runtime (answering (ustr ''ok'')) [] [] QUESTION [] 1 =
       (case response_text ascii_runtime [Some (ustr ''ok'')] of
          Inl e \<Rightarrow> Inl (classify_error ascii_runtime e)
        | Inr a \<Rightarrow> Inr a,
        [] @ [?r])"
    by blast
  then have r3: "generate_response ascii_runtime (answering (ustr ''ok'')) [] [] QUESTION [] 1
                   = (Inr (ustr ''ok''), [?r])"
    by (simp add: rt)
  have t1: "cp_temperature ?r = None" using plain by blast
  show ?thesis
    using ne t h1 h2 r1 r1s h4 r2 r2s r3 t1 by (simp only: append_Nil simp_thms)
qed

text \<open>
  C4. The fragments that the budgeting step produces are, in the same order, fragments
  of the ranked documents: they are a subsequence of the per-document fragments, and
  more precisely the first \<open>n\<close> fragments of the documents that have a content. The
  entries of \<open>sources\<close> in the result of \<open>rag_answer\<close> are, position by position, those of
  the search results.
\<close>

theorem order_preserved:
  assumes "search_documents_text_only (search_client self) q k = Inr docs"
  shows "subseq (budget_context docs) (map (\<lambda>d. truncate_content (get_content d)) docs) \<and>
         (\<exists>n. budget_context docs = take n (ranked_fragments docs)) \<and>
         (\<forall>i < length (sources (fst (rag_answer L self calls q k t))).
            sources (fst (rag_answer L self calls q k t)) ! i = source_of (docs ! i))"
proof -
  from rag_answer_sources[OF assms, of L calls t]
  have "\<forall>i < length (sources (fst (rag_answer L self calls q k t))).
            sources (fst (rag_answer L self calls q k t)) ! i = source_of (docs ! i)"
    by auto
  then show ?thesis using budget_context_subseq budget_context_take by blast
qed

theorem order_preserved_witness:
  "search_documents_text_only (search_client plain_pipeline) QUESTION 5
     = Inr [to_document filter_hit, to_document blank_hit] \<and>
   budget_context [to_document filter_hit, to_document blank_hit]
     = [ustr ''Replace the filter''] \<and>
   subseq (budget_context [to_document filter_hit, to_document blank_hit])
     (map (\<lambda>d. truncate_content (get_content d))
        [to_document filter_hit, to_document blank_hit]) \<and>
   (1::nat) < length (sources (fst (rag_answer ascii_runtime plain_pipeline [] QUESTION 5 1))) \<and>
   sources (fst (rag_answer ascii_runtime plain_pipeline [] QUESTION 5 1)) ! 1
     = source_of ([to_document filter_hit, to_document blank_hit] ! 1)"
proof -
  let ?docs = "[to_document filter_hit, to_document blank_hit]"
  have h: "search_documents_text_only (search_client plain_pipeline) QUESTION 5 = Inr ?docs"
    by (rule pipeline_searches)
  have b: "budget_context ?docs \<noteq> []" by (simp add: budget_filter_blank_docs)
  have "length (sources (fst (rag_answer ascii_runtime plain_pipeline [] QUESTION 5 1))) = 2"
    by (simp add: rag_answer_generated[OF h b] pipeline_clients answering_blocking)
  then have l: "(1::nat) < length (sources (fst (rag_answer ascii_runtime plain_pipeline []
                                                  QUESTION 5 1)))"
    by simp
  from order_preserved[OF h, of ascii_runtime "[]" 1] l h budget_filter_blank_docs
  show ?thesis by blast
qed

text \<open>
  C5, as stated for every invocation, fails: a search that returns one document whose
  content is empty ends in the no-usable-context answer, whose \<open>sources\<close> list is empty.
\<close>

theorem sources_always_populated_counterexample:
  "search_documents_text_only (search_client blank_pipeline) QUESTION 5
     = Inr [to_document blank_hit] \<and>
   sources (fst (rag_answer ascii_runtime blank_pipeline [] QUESTION 5 1)) = [] \<and>
   sources (fst (rag_answer ascii_runtime blank_pipeline [] QUESTION 5 1))
     \<noteq> map source_of [to_document blank_hit]"
proof -
  have h: "search_documents_text_only (search_client blank_pipeline) QUESTION 5
             = Inr [to_document blank_hit]"
    by (rule pipeline_searches)
  have "sources (fst (rag_answer ascii_runtime blank_pipeline [] QUESTION 5 1)) = []"
    using h by (simp add: rag_answer_def budget_blank_doc)
  with h show ?thesis by simp
qed

text \<open>
  C5, amended. In every invocation of \<open>rag_answer\<close> that reaches the generation step and
  in which \<open>generate_response\<close> returns an answer, the \<open>sources\<close> of the result are built
  from the original search results: one entry per retrieved document, in order, with the
  document's source name (\<open>Unknown\<close> when absent), its score (0.0 when absent) and its path
  when it has one, whether or not the document's content is among the fragments. In every
  other outcome \<open>sources\<close> is the empty list: when the search raises, when it returns no
  document, when no document gives a fragment, and when \<open>generate_response\<close> raises.
\<close>

theorem sources_when_answered:
  "(\<forall>docs reply.
      search_documents_text_only (search_client self) q k = Inr docs \<and>
      budget_context docs \<noteq> [] \<and>
      fst (generate_response L (openai_client self) calls (system_prompt self) q
             (budget_context docs) t) = Inr reply \<longrightarrow>
      answer (fst (rag_answer L self calls q k t)) = reply \<and>
      sources (fst (rag_answer L self calls q k t)) = map source_of docs \<and>
      length (sources (fst (rag_answer L self calls q k t))) = length docs \<and>
      (\<forall>i < length docs.
         source (sources (fst (rag_answer L self calls q k t)) ! i)
           = (case doc_source (docs ! i) of None \<Rightarrow> ustr ''Unknown'' | Some s \<Rightarrow> s) \<and>
         score (sources (fst (rag_answer L self calls q k t)) ! i)
           = (case doc_score (docs ! i) of None \<Rightarrow> 0 | Some x \<Rightarrow> x) \<and>
         path (sources (fst (rag_answer L self calls q k t)) ! i) = doc_path (docs ! i))) \<and>
   (\<forall>e. search_documents_text_only (search_client self) q k = Inl e \<longrightarrow>
      answer (fst (rag_answer L self calls q k t)) = error_answer L e \<and>
      sources (fst (rag_answer L self calls q k t)) = []) \<and>
   (search_documents_text_only (search_client self) q k = Inr [] \<longrightarrow>
      answer (fst (rag_answer L self calls q k t)) = NO_RESULTS_ANSWER \<and>
      sources (fst (rag_answer L self calls q k t)) = []) \<and>
   (\<forall>docs.
      search_documents_text_only (search_client self) q k = Inr docs \<and> docs \<noteq> [] \<and>
      budget_context docs = [] \<longrightarrow>
      answer (fst (rag_answer L self calls q k t)) = no_context_answer L docs \<and>
      sources (fst (rag_answer L self calls q k t)) = []) \<and>
   (\<forall>docs e.
      search_documents_text_only (search_client self) q k = Inr docs \<and>
      budget_context docs \<noteq> [] \<and>
      fst (generate_response L (openai_client self) calls (system_prompt self) q
             (budget_context docs) t) = Inl e \<longrightarrow>
      answer (fst (rag_answer L self calls q k t)) = error_answer L e \<and>
      sources (fst (rag_answer L self calls q k t)) = [])"
proof -
  have ok: "\<forall>docs reply.
      search_documents_text_only (search_client self) q k = Inr docs \<and>
      budget_context docs \<noteq> [] \<and>
      fst (generate_response L (openai_client self) calls (system_prompt self) q
             (budget_context docs) t) = Inr reply \<longrightarrow>
      answer (fst (rag_answer L self calls q k t)) = reply \<and>
      sources (fst (rag_answer L self calls q k t)) = map source_of docs \<and>
      length (sources (fst (rag_answer L self calls q k t))) = length docs \<and>
      (\<forall>i < length docs.
         source (sources (fst (rag_answer L self calls q k t)) ! i)
           = (case doc_source (docs ! i) of None \<Rightarrow> ustr ''Unknown'' | Some s \<Rightarrow> s) \<and>
         score (sources (fst (rag_answer L self calls q k t)) ! i)
           = (case doc_score (docs ! i) of None \<Rightarrow> 0 | Some x \<Rightarrow> x) \<and>
         path (sources (fst (rag_answer L self calls q k t)) ! i) = doc_path (docs ! i))"
  proof (intro allI impI, elim conjE)
    fix docs reply
    assume s: "search_documents_text_only (search_client self) q k = Inr docs"
      and b: "budget_context docs \<noteq> []"
      and g: "fst (generate_response L (openai_client self) calls (system_prompt self) q
                     (budget_context docs) t) = Inr reply"
    have "fst (rag_answer L self calls q k t)
            = \<lparr>answer = reply, sources = map source_of docs\<rparr>"
      by (simp add: rag_answer_of_generation[OF s b] g)
    then show "answer (fst (rag_answer L self calls q k t)) = reply \<and>
      sources (fst (rag_answer L self calls q k t)) = map source_of docs \<and>
      length (sources (fst (rag_answer L self calls q k t))) = length docs \<and>
      (\<forall>i < length docs.
         source (sources (fst (rag_answer L self calls q k t)) ! i)
           = (case doc_source (docs ! i) of None \<Rightarrow> ustr ''Unknown'' | Some s \<Rightarrow> s) \<and>
         score (sources (fst (rag_answer L self calls q k t)) ! i)
           = (case doc_score (docs ! i) of None \<Rightarrow> 0 | Some x \<Rightarrow> x) \<and>
         path (sources (fst (rag_answer L self calls q k t)) ! i) = doc_path (docs ! i))"
      by (simp add: source_of_def)
  qed
  have search_error: "\<forall>e. search_documents_text_only (search_client self) q k = Inl e \<longrightarrow>
      answer (fst (rag_answer L self calls q k t)) = error_answer L e \<and>
      sources (fst (rag_answer L self calls q k t)) = []"
    by (simp add: rag_answer_def)
  have no_results: "search_documents_text_only (search_client self) q k = Inr [] \<longrightarrow>
      answer (fst (rag_answer L self calls q k t)) = NO_RESULTS_ANSWER \<and>
      sources (fst (rag_answer L self calls q k t)) = []"
    by (simp add: rag_answer_def)
  have no_context: "\<forall>docs.
      search_documents_text_only (search_client self) q k = Inr docs \<and> docs \<noteq> [] \<and>
      budget_context docs = [] \<longrightarrow>
      answer (fst (rag_answer L self calls q k t)) = no_context_answer L docs \<and>
      sources (fst (rag_answer L self calls q k t)) = []"
    by (simp add: rag_answer_def)
  have generation_error: "\<forall>docs e.
      search_documents_text_only (search_client self) q k = Inr docs \<and>
      budget_context docs \<noteq> [] \<and>
      fst (generate_response L (openai_client self) calls (system_prompt self) q
             (budget_context docs) t) = Inl e \<longrightarrow>
      answer (fst (rag_answer L self calls q k t)) = error_answer L e \<and>
      sources (fst (rag_answer L self calls q k t)) = []"
  proof (intro allI impI, elim conjE)
    fix docs e
    assume s: "search_documents_text_only (search_client self) q k = Inr docs"
      and b: "budget_context docs \<noteq> []"
      and g: "fst (generate_response L (openai_client self) calls (system_prompt self) q
                     (budget_context docs) t) = Inl e"
    show "answer (fst (rag_answer L self calls q k t)) = error_answer L e \<and>
          sources (fst (rag_answer L self calls q k t)) = []"
      by (simp add: rag_answer_of_generation[OF s b] g)
  qed
  show ?thesis
    by (intro conjI ok search_error no_results no_context generation_error)
qed

theorem sources_when_answered_witness:
  "search_documents_text_only (search_client plain_pipeline) QUESTION 5
     = Inr [to_document filter_hit, to_document blank_hit] \<and>
   budget_context [to_document filter_hit, to_document blank_hit] \<noteq> [] \<and>
   fst (generate_response ascii_runtime (openai_client plain_pipeline) []
          (system_prompt plain_pipeline) QUESTION
          (budget_context [to_document filter_hit, to_document blank_hit]) 1)
     = Inr (ustr ''ok'') \<and>
   answer (fst (rag_answer ascii_runtime plain_pipeline [] QUESTION 5 1)) = ustr ''ok'' \<and>
   length (sources (fst (rag_answer ascii_runtime plain_pipeline [] QUESTION 5 1))) = 2 \<and>
   (1::nat) < length [to_document filter_hit, to_document blank_hit] \<and>
   source (sources (fst (rag_answer ascii_runtime plain_pipeline [] QUESTION 5 1)) ! 1)
     = ustr ''cover.pdf'' \<and>
   score (sources (fst (rag_answer ascii_runtime plain_pipeline [] QUESTION 5 1)) ! 1) = 1 \<and>
   path (sources (fst (rag_answer ascii_runtime plain_pipeline [] QUESTION 5 1)) ! 1)
     = Some (ustr ''docs/cover.pdf'') \<and>
   search_documents_text_only (search_client unreachable_pipeline) QUESTION 5
     = Inl (ustr ''Error al buscar en Azure AI Search: '' @ ustr ''Service unavailable'') \<and>
   sources (fst (rag_answer ascii_runtime unreachable_pipeline [] QUESTION 5 1)) = [] \<and>
   search_documents_text_only (search_client empty_pipeline) QUESTION 5 = Inr [] \<and>
   sources (fst (rag_answer ascii_runtime empty_pipeline [] QUESTION 5 1)) = [] \<and>
   search_documents_text_only (search_client blank_pipeline) QUESTION 5
     = Inr [to_document blank_hit] \<and>
   budget_context [to_document blank_hit] = [] \<and>
   sources (fst (rag_answer ascii_runtime blank_pipeline [] QUESTION 5 1)) = [] \<and>
   search_documents_text_only (search_client throttled_pipeline) QUESTION 5
     = Inr [to_document filter_hit] \<and>
   budget_context [to_document filter_hit] \<noteq> [] \<and>
   fst (generate_response ascii_runtime (openai_client throttled_pipeline) []
          (system_prompt throttled_pipeline) QUESTION
          (budget_context [to_document filter_hit]) 1)
     = Inl RATE_LIMIT_MESSAGE \<and>
   sources (fst (rag_answer ascii_runtime throttled_pipeline [] QUESTION 5 1)) = []"
proof -
  let ?docs = "[to_document filter_hit, to_document blank_hit]"
  have h1: "search_documents_text_only (search_client plain_pipeline) QUESTION 5 = Inr ?docs"
    by (rule pipeline_searches)
  have h2: "budget_context ?docs \<noteq> []" by (simp add: budget_filter_blank_docs)
  have h3: "fst (generate_response ascii_runtime (openai_client plain_pipeline) []
                   (system_prompt plain_pipeline) QUESTION (budget_context ?docs) 1)
              = Inr (ustr ''ok'')"
    by (simp add: pipeline_clients answering_blocking ascii_runtime_def strip_ok)
  have d: "doc_source (?docs ! 1) = Some (ustr ''cover.pdf'') \<and>
           doc_score (?docs ! 1) = Some 1 \<and>
           doc_path (?docs ! 1) = Some (ustr ''docs/cover.pdf'')"
    by (simp add: to_document_def blank_hit_def)
  have l: "(1::nat) < length ?docs" by simp
  from sources_when_answered[of plain_pipeline QUESTION 5 ascii_runtime "[]" 1] h1 h2 h3 have
    c: "answer (fst (rag_answer ascii_runtime plain_pipeline [] QUESTION 5 1)) = ustr ''ok''"
      "length (sources (fst (rag_answer ascii_runtime plain_pipeline [] QUESTION 5 1)))
         = length ?docs"
      "\<forall>i < length ?docs.
         source (sources (fst (rag_answer ascii_runtime plain_pipeline [] QUESTION 5 1)) ! i)
           = (case doc_source (?docs ! i) of None \<Rightarrow> ustr ''Unknown'' | Some s \<Rightarrow> s) \<and>
         score (sources (fst (rag_answer ascii_runtime plain_pipeline [] QUESTION 5 1)) ! i)
           = (case doc_score (?docs ! i) of None \<Rightarrow> 0 | Some x \<Rightarrow> x) \<and>
         path (sources (fst (rag_answer ascii_runtime plain_pipeline [] QUESTION 5 1)) ! i)
           = doc_path (?docs ! i)"
    by blast+
  from c(3) l have
    "source (sources (fst (rag_answer ascii_runtime plain_pipeline [] QUESTION 5 1)) ! 1)
       = (case doc_source (?docs ! 1) of None \<Rightarrow> ustr ''Unknown'' | Some s \<Rightarrow> s) \<and>
     score (sources (fst (rag_answer ascii_runtime plain_pipeline [] QUESTION 5 1)) ! 1)
       = (case doc_score (?docs ! 1) of None \<Rightarrow> 0 | Some x \<Rightarrow> x) \<and>
     path (sources (fst (rag_answer ascii_runtime plain_pipeline [] QUESTION 5 1)) ! 1)
       = doc_path (?docs ! 1)"
    by blast
  with d have e:
    "source (sources (fst (rag_answer ascii_runtime plain_pipeline [] QUESTION 5 1)) ! 1)
       = ustr ''cover.pdf'' \<and>
     score (sources (fst (rag_answer ascii_runtime plain_pipeline [] QUESTION 5 1)) ! 1) = 1 \<and>
     path (sources (fst (rag_answer ascii_runtime plain_pipeline [] QUESTION 5 1)) ! 1)
       = Some (ustr ''docs/cover.pdf'')"
    by simp
  have u1: "search_documents_text_only (search_client unreachable_pipeline) QUESTION 5
     = Inl (ustr ''Error al buscar en Azure AI Search: '' @ ustr ''Service unavailable'')"
    by (rule more_pipeline_searches)
  from sources_when_answered[of unreachable_pipeline QUESTION 5 ascii_runtime "[]" 1] u1
  have u: "sources (fst (rag_answer ascii_runtime unreachable_pipeline [] QUESTION 5 1)) = []"
    by blast
  have n1: "search_documents_text_only (search_client empty_pipeline) QUESTION 5 = Inr []"
    by (rule more_pipeline_searches)
  from sources_when_answered[of empty_pipeline QUESTION 5 ascii_runtime "[]" 1] n1
  have n: "sources (fst (rag_answer ascii_runtime empty_pipeline [] QUESTION 5 1)) = []"
    by blast
  have b1: "search_documents_text_only (search_client blank_pipeline) QUESTION 5
              = Inr [to_document blank_hit]"
    by (rule pipeline_searches)
  have b2: "[to_document blank_hit] \<noteq> []" by simp
  from sources_when_answered[of blank_pipeline QUESTION 5 ascii_runtime "[]" 1]
    b1 b2 budget_blank_doc
  have b: "sources (fst (rag_answer ascii_runtime blank_pipeline [] QUESTION 5 1)) = []"
    by blast
  have t1: "search_documents_text_only (search_client throttled_pipeline) QUESTION 5
              = Inr [to_document filter_hit]"
    by (rule pipeline_searches)
  have t2: "budget_context [to_document filter_hit] \<noteq> []" by (simp add: budget_filter_doc)
  have t3: "fst (generate_response ascii_runtime (openai_client throttled_pipeline) []
                   (system_prompt throttled_pipeline) QUESTION
                   (budget_context [to_document filter_hit]) 1) = Inl RATE_LIMIT_MESSAGE"
    by (simp add: pipeline_clients generate_response_def create_with_retry_def create_def
          failing_def Let_def code_429_not_temperature classify_429[OF code_429])
  from sources_when_answered[of throttled_pipeline QUESTION 5 ascii_runtime "[]" 1] t1 t2 t3
  have th: "sources (fst (rag_answer ascii_runtime throttled_pipeline [] QUESTION 5 1)) = []"
    by blast
  from h1 h2 h3 c(1) c(2) l e u1 u n1 n b1 budget_blank_doc b t1 t2 t3 th
  show ?thesis by simp
qed

text \<open>
  C6, as stated, fails in both modes.

  In blocking mode, by the design of the retry, an error that contains \<open>429\<close> and also
  names \<open>temperature\<close> as unsupported is not handled as a rate limit: the call is retried,
  and when the retry is answered the result is that answer with its sources, without the
  guidance.

  In streaming mode the sources are never empty once the generation step is reached (lemma
  \<open>rag_answer_stream_sources\<close>): the gateway turns the error into a chunk, so
  \<open>rag_answer_stream\<close> goes on to step 5 and returns the sources of all the retrieved
  documents. This is a defect of the code, not a design: the handler of
  \<open>rag_answer_stream\<close> itself (lines 254 to 260) returns an empty list for a rate-limit
  error, and \<open>rag_answer\<close> returns an empty list for the same backend error; the handler is
  simply never reached by an error of the generation step. The failing input is a search
  that returns one document with a content and a backend whose streaming call raises
  \<open>Error code: 429\<close>.
\<close>

theorem rate_limit_counterexample:
  "py_in (ustr ''429'') THROTTLED \<and>
   create_stream (openai_client throttled_pipeline) []
     (build_call_params (openai_client throttled_pipeline) True
        (build_messages (system_prompt throttled_pipeline) QUESTION
           (budget_context [to_document filter_hit])) 1) = Inl THROTTLED \<and>
   yielded (fst (rag_answer_stream ascii_runtime throttled_pipeline [] QUESTION 5 1))
     = [STREAM_RATE_LIMIT] \<and>
   returned_sources (fst (rag_answer_stream ascii_runtime throttled_pipeline [] QUESTION 5 1))
     = [\<lparr>source = ustr ''manual.pdf'', score = 2, path = Some (ustr ''docs/manual.pdf'')\<rparr>] \<and>
   returned_sources (fst (rag_answer_stream ascii_runtime throttled_pipeline [] QUESTION 5 1))
     \<noteq> [] \<and>
   py_in (ustr ''429'') REJECTION \<and>
   create_completion (openai_client picky_pipeline) []
     (build_call_params (openai_client picky_pipeline) False
        (build_messages (system_prompt picky_pipeline) QUESTION
           (budget_context [to_document filter_hit])) 0.3) = Inl REJECTION \<and>
   answer (fst (rag_answer ascii_runtime picky_pipeline [] QUESTION 5 0.3)) = ustr ''ok'' \<and>
   \<not> py_in LIMIT_REACHED (answer (fst (rag_answer ascii_runtime picky_pipeline [] QUESTION 5 0.3))) \<and>
   sources (fst (rag_answer ascii_runtime picky_pipeline [] QUESTION 5 0.3)) \<noteq> []"
proof -
  have b: "budget_context [to_document filter_hit] \<noteq> []" by (simp add: budget_filter_doc)
  have s1: "create_stream (openai_client throttled_pipeline) []
              (build_call_params (openai_client throttled_pipeline) True
                 (build_messages (system_prompt throttled_pipeline) QUESTION
                    (budget_context [to_document filter_hit])) 1) = Inl THROTTLED"
    by (simp add: pipeline_clients failing_def)
  have st: "rag_answer_stream ascii_runtime throttled_pipeline [] QUESTION 5 1 =
              (\<lparr>yielded = fst (generate_response_stream ascii_runtime
                                 (openai_client throttled_pipeline) []
                                 (system_prompt throttled_pipeline) QUESTION
                                 (budget_context [to_document filter_hit]) 1),
                returned_sources = map source_of [to_document filter_hit]\<rparr>,
               snd (generate_response_stream ascii_runtime (openai_client throttled_pipeline) []
                      (system_prompt throttled_pipeline) QUESTION
                      (budget_context [to_document filter_hit]) 1))"
    by (rule rag_answer_stream_generated[OF pipeline_searches(3) b])
  have y: "yielded (fst (rag_answer_stream ascii_runtime throttled_pipeline [] QUESTION 5 1))
             = [STREAM_RATE_LIMIT]"
    by (simp add: st pipeline_clients failing_streaming[OF code_429_not_temperature]
          stream_chunk_429[OF code_429])
  have r: "returned_sources (fst (rag_answer_stream ascii_runtime throttled_pipeline []
                                    QUESTION 5 1))
             = [\<lparr>source = ustr ''manual.pdf'', score = 2,
                 path = Some (ustr ''docs/manual.pdf'')\<rparr>]"
    by (simp add: st source_of_filter_hit)
  have c2: "create_completion (openai_client picky_pipeline) []
              (build_call_params (openai_client picky_pipeline) False
                 (build_messages (system_prompt picky_pipeline) QUESTION
                    (budget_context [to_document filter_hit])) 0.3) = Inl REJECTION"
    by (simp add: pipeline_clients rejecting_temperature_def build_call_params_def
          del: not_None_eq)
  obtain calls1 where g: "generate_response ascii_runtime (openai_client picky_pipeline) []
                            (system_prompt picky_pipeline) QUESTION
                            (budget_context [to_document filter_hit]) 0.3
                          = (Inr (ustr ''ok''), calls1)"
    using picky_blocking[of "[]" "system_prompt picky_pipeline" QUESTION
            "budget_context [to_document filter_hit]"]
    by (cases "generate_response ascii_runtime (openai_client picky_pipeline) []
                 (system_prompt picky_pipeline) QUESTION
                 (budget_context [to_document filter_hit]) 0.3")
       (simp add: pipeline_clients)
  have a: "fst (rag_answer ascii_runtime picky_pipeline [] QUESTION 5 0.3)
             = \<lparr>answer = ustr ''ok'', sources = map source_of [to_document filter_hit]\<rparr>"
    by (simp add: rag_answer_generated[OF pipeline_searches(4) b] g)
  show ?thesis
    using code_429 s1 y r rejection_429 c2 a limit_reached_not_in_ok by simp
qed

text \<open>
  C6, amended. Let the generation backend raise to the gateway an error whose message
  contains \<open>429\<close>: on the call of the invocation, the error not naming \<open>temperature\<close> as
  unsupported, or on the retry that follows an error naming it, or, in streaming mode,
  while the stream obtained by either call is read. Then blocking mode returns an answer
  text that contains the rate-limit guidance (the phrase \<open>LIMIT_REACHED\<close> and the advice to
  wait 60 seconds, \<open>WAIT_GUIDANCE\<close>) with an empty \<open>sources\<close> list, and streaming mode
  yields its rate-limit message, which contains the same two phrases, as its final chunk.
  The only errors containing \<open>429\<close> that are left out are those that name \<open>temperature\<close> as
  unsupported on the first call: the retry decides for them. The \<open>sources\<close> of streaming
  mode are left out: see the defect above.
\<close>

theorem rate_limit_guidance:
  assumes "search_documents_text_only (search_client self) q k = Inr docs"
    and "budget_context docs \<noteq> []"
    and "py_in (ustr ''429'') e"
    and "pb = build_call_params (openai_client self) False
                (build_messages (system_prompt self) q (budget_context docs)) t"
    and "ps = build_call_params (openai_client self) True
                (build_messages (system_prompt self) q (budget_context docs)) t"
  shows
  "(((create_completion (openai_client self) calls pb = Inl e \<and>
      \<not> names_unsupported_temperature L e) \<or>
     (\<exists>e0. create_completion (openai_client self) calls pb = Inl e0 \<and>
           names_unsupported_temperature L e0 \<and>
           create_completion (openai_client self) (calls @ [pb])
             (pb\<lparr>cp_temperature := None\<rparr>) = Inl e)) \<longrightarrow>
    answer (fst (rag_answer L self calls q k t)) = error_answer L RATE_LIMIT_MESSAGE \<and>
    py_in LIMIT_REACHED (answer (fst (rag_answer L self calls q k t))) \<and>
    py_in WAIT_GUIDANCE (answer (fst (rag_answer L self calls q k t))) \<and>
    sources (fst (rag_answer L self calls q k t)) = []) \<and>
   (((create_stream (openai_client self) calls ps = Inl e \<and>
      \<not> names_unsupported_temperature L e) \<or>
     (\<exists>e0. create_stream (openai_client self) calls ps = Inl e0 \<and>
           names_unsupported_temperature L e0 \<and>
           create_stream (openai_client self) (calls @ [ps])
             (ps\<lparr>cp_temperature := None\<rparr>) = Inl e) \<or>
     (\<exists>s. create_stream (openai_client self) calls ps = Inr s \<and>
          stream_failure s = Some e) \<or>
     (\<exists>e0 s. create_stream (openai_client self) calls ps = Inl e0 \<and>
           names_unsupported_temperature L e0 \<and>
           create_stream (openai_client self) (calls @ [ps])
             (ps\<lparr>cp_temperature := None\<rparr>) = Inr s \<and>
           stream_failure s = Some e)) \<longrightarrow>
    yielded (fst (rag_answer_stream L self calls q k t)) \<noteq> [] \<and>
    last (yielded (fst (rag_answer_stream L self calls q k t))) = STREAM_RATE_LIMIT \<and>
    py_in LIMIT_REACHED (last (yielded (fst (rag_answer_stream L self calls q k t)))) \<and>
    py_in WAIT_GUIDANCE (last (yielded (fst (rag_answer_stream L self calls q k t)))))"
proof (intro conjI impI)
  assume b: "(create_completion (openai_client self) calls pb = Inl e \<and>
              \<not> names_unsupported_temperature L e) \<or>
             (\<exists>e0. create_completion (openai_client self) calls pb = Inl e0 \<and>
                   names_unsupported_temperature L e0 \<and>
                   create_completion (openai_client self) (calls @ [pb])
                     (pb\<lparr>cp_temperature := None\<rparr>) = Inl e)"
  have "fst (create_with_retry L (create_completion (openai_client self)) calls pb) = Inl e"
    using b by (rule call_step_error)
  then have "fst (generate_response L (openai_client self) calls (system_prompt self) q
                    (budget_context docs) t) = Inl RATE_LIMIT_MESSAGE"
    unfolding assms(4)
    by (simp add: generate_response_of_call_step classify_429[OF assms(3)])
  then have r: "fst (rag_answer L self calls q k t)
                  = \<lparr>answer = error_answer L RATE_LIMIT_MESSAGE, sources = []\<rparr>"
    by (simp add: rag_answer_of_generation[OF assms(1,2)])
  show "answer (fst (rag_answer L self calls q k t)) = error_answer L RATE_LIMIT_MESSAGE"
    by (simp add: r)
  show "py_in LIMIT_REACHED (answer (fst (rag_answer L self calls q k t)))"
    by (simp add: r guidance_in_error_answer)
  show "py_in WAIT_GUIDANCE (answer (fst (rag_answer L self calls q k t)))"
    by (simp add: r guidance_in_error_answer)
  show "sources (fst (rag_answer L self calls q k t)) = []"
    by (simp add: r)
next
  assume s: "(create_stream (openai_client self) calls ps = Inl e \<and>
              \<not> names_unsupported_temperature L e) \<or>
             (\<exists>e0. create_stream (openai_client self) calls ps = Inl e0 \<and>
                   names_unsupported_temperature L e0 \<and>
                   create_stream (openai_client self) (calls @ [ps])
                     (ps\<lparr>cp_temperature := None\<rparr>) = Inl e) \<or>
             (\<exists>s. create_stream (openai_client self) calls ps = Inr s \<and>
                  stream_failure s = Some e) \<or>
             (\<exists>e0 s. create_stream (openai_client self) calls ps = Inl e0 \<and>
                   names_unsupported_temperature L e0 \<and>
                   create_stream (openai_client self) (calls @ [ps])
                     (ps\<lparr>cp_temperature := None\<rparr>) = Inr s \<and>
                   stream_failure s = Some e)"
  have "fst (create_with_retry L (create_stream (openai_client self)) calls ps) = Inl e \<or>
        (\<exists>s. fst (create_with_retry L (create_stream (openai_client self)) calls ps) = Inr s \<and>
             stream_failure s = Some e)"
    using s
      call_step_error[of "create_stream (openai_client self)" calls ps e L]
      call_step_reply[of "create_stream (openai_client self)" calls ps _ L]
    by blast
  then have "\<exists>before. fst (generate_response_stream L (openai_client self) calls
                              (system_prompt self) q (budget_context docs) t)
                        = before @ [STREAM_RATE_LIMIT]"
    unfolding assms(5)
    by (auto simp: generate_response_stream_of_call_step stream_chunk_429[OF assms(3)])
  then obtain before where
    y: "yielded (fst (rag_answer_stream L self calls q k t)) = before @ [STREAM_RATE_LIMIT]"
    by (auto simp: rag_answer_stream_generated[OF assms(1,2)])
  show "yielded (fst (rag_answer_stream L self calls q k t)) \<noteq> []"
    by (simp add: y)
  show "last (yielded (fst (rag_answer_stream L self calls q k t))) = STREAM_RATE_LIMIT"
    by (simp add: y)
  show "py_in LIMIT_REACHED (last (yielded (fst (rag_answer_stream L self calls q k t))))"
    by (simp add: y limit_reached_in_messages)
  show "py_in WAIT_GUIDANCE (last (yielded (fst (rag_answer_stream L self calls q k t))))"
    by (simp add: y limit_reached_in_messages)
qed

theorem rate_limit_guidance_witness:
  "search_documents_text_only (search_client throttled_pipeline) QUESTION 5
     = Inr [to_document filter_hit] \<and>
   budget_context [to_document filter_hit] \<noteq> [] \<and>
   py_in (ustr ''429'') THROTTLED \<and>
   \<not> names_unsupported_temperature ascii_runtime THROTTLED \<and>
   create_completion (openai_client throttled_pipeline) []
     (build_call_params (openai_client throttled_pipeline) False
        (build_messages (system_prompt throttled_pipeline) QUESTION
           (budget_context [to_document filter_hit])) 1) = Inl THROTTLED \<and>
   create_stream (openai_client throttled_pipeline) []
     (build_call_params (openai_client throttled_pipeline) True
        (build_messages (system_prompt throttled_pipeline) QUESTION
           (budget_context [to_document filter_hit])) 1) = Inl THROTTLED \<and>
   py_in LIMIT_REACHED (answer (fst (rag_answer ascii_runtime throttled_pipeline [] QUESTION 5 1))) \<and>
   py_in WAIT_GUIDANCE (answer (fst (rag_answer ascii_runtime throttled_pipeline [] QUESTION 5 1))) \<and>
   sources (fst (rag_answer ascii_runtime throttled_pipeline [] QUESTION 5 1)) = [] \<and>
   last (yielded (fst (rag_answer_stream ascii_runtime throttled_pipeline [] QUESTION 5 1)))
     = STREAM_RATE_LIMIT \<and>
   names_unsupported_temperature ascii_runtime REJECTION \<and>
   create_completion (openai_client twice_failing_pipeline) []
     (build_call_params (openai_client twice_failing_pipeline) False
        (build_messages (system_prompt twice_failing_pipeline) QUESTION
           (budget_context [to_document filter_hit])) 0.3) = Inl REJECTION \<and>
   create_completion (openai_client twice_failing_pipeline)
     [build_call_params (openai_client twice_failing_pipeline) False
        (build_messages (system_prompt twice_failing_pipeline) QUESTION
           (budget_context [to_document filter_hit])) 0.3]
     ((build_call_params (openai_client twice_failing_pipeline) False
         (build_messages (system_prompt twice_failing_pipeline) QUESTION
            (budget_context [to_document filter_hit])) 0.3)\<lparr>cp_temperature := None\<rparr>)
     = Inl THROTTLED \<and>
   py_in LIMIT_REACHED
     (answer (fst (rag_answer ascii_runtime twice_failing_pipeline [] QUESTION 5 0.3))) \<and>
   sources (fst (rag_answer ascii_runtime twice_failing_pipeline [] QUESTION 5 0.3)) = [] \<and>
   create_stream (openai_client breaking_pipeline) []
     (build_call_params (openai_client breaking_pipeline) True
        (build_messages (system_prompt breaking_pipeline) QUESTION
           (budget_context [to_document filter_hit])) 1)
     = Inr \<lparr>stream_chunks = map (\<lambda>c. [Delta (Some [c])]) (ustr ''ok''),
            stream_failure = Some THROTTLED\<rparr> \<and>
   last (yielded (fst (rag_answer_stream ascii_runtime breaking_pipeline [] QUESTION 5 1)))
     = STREAM_RATE_LIMIT"
proof -
  let ?docs = "[to_document filter_hit]"
  have h2: "budget_context ?docs \<noteq> []" by (simp add: budget_filter_doc)
  let ?pb1 = "build_call_params (openai_client throttled_pipeline) False
                (build_messages (system_prompt throttled_pipeline) QUESTION
                   (budget_context ?docs)) 1"
  let ?ps1 = "build_call_params (openai_client throttled_pipeline) True
                (build_messages (system_prompt throttled_pipeline) QUESTION
                   (budget_context ?docs)) 1"
  have a1: "search_documents_text_only (search_client throttled_pipeline) QUESTION 5
              = Inr ?docs"
    by (rule pipeline_searches)
  have a5: "create_completion (openai_client throttled_pipeline) [] ?pb1 = Inl THROTTLED"
    by (simp add: pipeline_clients failing_def)
  have a6: "create_stream (openai_client throttled_pipeline) [] ?ps1 = Inl THROTTLED"
    by (simp add: pipeline_clients failing_def)
  from rate_limit_guidance[OF a1 h2 code_429 refl refl,
         where calls = "[]" and L = ascii_runtime]
    a5 a6 code_429_not_temperature
  have a: "py_in LIMIT_REACHED
             (answer (fst (rag_answer ascii_runtime throttled_pipeline [] QUESTION 5 1))) \<and>
           py_in WAIT_GUIDANCE
             (answer (fst (rag_answer ascii_runtime throttled_pipeline [] QUESTION 5 1))) \<and>
           sources (fst (rag_answer ascii_runtime throttled_pipeline [] QUESTION 5 1)) = [] \<and>
           last (yielded (fst (rag_answer_stream ascii_runtime throttled_pipeline [] QUESTION
                                 5 1))) = STREAM_RATE_LIMIT"
    by blast
  let ?pb2 = "build_call_params (openai_client twice_failing_pipeline) False
                (build_messages (system_prompt twice_failing_pipeline) QUESTION
                   (budget_context ?docs)) 0.3"
  have b1: "search_documents_text_only (search_client twice_failing_pipeline) QUESTION 5
              = Inr ?docs"
    by (rule more_pipeline_searches)
  have bt: "cp_temperature ?pb2 = Some 0.3" by (simp add: build_call_params_def)
  have b5: "create_completion (openai_client twice_failing_pipeline) [] ?pb2 = Inl REJECTION"
    using bt by (simp add: more_pipeline_clients rejecting_then_failing_def del: not_None_eq)
  have b6: "create_completion (openai_client twice_failing_pipeline) ([] @ [?pb2])
              (?pb2\<lparr>cp_temperature := None\<rparr>) = Inl THROTTLED"
    by (simp add: more_pipeline_clients rejecting_then_failing_def)
  from rate_limit_guidance[OF b1 h2 code_429 refl refl,
         where calls = "[]" and L = ascii_runtime]
    b5 b6 rejection_names_temperature
  have b: "py_in LIMIT_REACHED
             (answer (fst (rag_answer ascii_runtime twice_failing_pipeline [] QUESTION 5
                             0.3))) \<and>
           sources (fst (rag_answer ascii_runtime twice_failing_pipeline [] QUESTION 5 0.3))
             = []"
    by blast
  let ?ps3 = "build_call_params (openai_client breaking_pipeline) True
                (build_messages (system_prompt breaking_pipeline) QUESTION
                   (budget_context ?docs)) 1"
  let ?s = "\<lparr>stream_chunks = map (\<lambda>c. [Delta (Some [c])]) (ustr ''ok''),
             stream_failure = Some THROTTLED\<rparr>"
  have c1: "search_documents_text_only (search_client breaking_pipeline) QUESTION 5
              = Inr ?docs"
    by (rule more_pipeline_searches)
  have c5: "create_stream (openai_client breaking_pipeline) [] ?ps3 = Inr ?s"
    by (simp add: more_pipeline_clients breaking_def)
  have c6: "stream_failure ?s = Some THROTTLED" by simp
  from rate_limit_guidance[OF c1 h2 code_429 refl refl,
         where calls = "[]" and L = ascii_runtime] c5 c6
  have c: "last (yielded (fst (rag_answer_stream ascii_runtime breaking_pipeline [] QUESTION
                                 5 1))) = STREAM_RATE_LIMIT"
    by blast
  from a1 h2 code_429 code_429_not_temperature a5 a6 a rejection_names_temperature b5
    b6[simplified append_Nil] b c5 c
  show ?thesis by (simp only: simp_thms)
qed




end
